theory Spec2Isabelle
  imports Main "HOL-Library.Word"
begin

unbundle bit_operations_syntax

section \<open>Values shared with the two libraries\<close>

text \<open>
  Package billycgofuse (lib.go) sits between two libraries: cgofuse, which calls the
  methods of \<open>wrapper\<close>, and go-billy, whose filesystem the wrapper calls. Go's fixed-width
  integers are words; Go's \<open>int\<close> (return codes, byte counts, open flags) is \<open>int\<close>, since
  the code only negates constants and ORs flags, which cannot overflow.
\<close>

type_synonym u32 = "32 word"
type_synonym u64 = "64 word"
type_synonym i64 = "64 word"
type_synonym byte = "8 word"

text \<open>The error numbers and the directory bit of package fuse, with their Linux values.\<close>

definition EPERM :: int where "EPERM = 1"
definition ENOENT :: int where "ENOENT = 2"
definition EIO :: int where "EIO = 5"
definition EEXIST :: int where "EEXIST = 17"
definition EINVAL :: int where "EINVAL = 22"
definition ENOSYS :: int where "ENOSYS = 38"
definition S_IFDIR :: u32 where "S_IFDIR = 0x4000"

text \<open>The open flags of package os (Linux values) and \<open>io.SeekStart\<close>.\<close>

definition O_RDONLY :: int where "O_RDONLY = 0"
definition O_WRONLY :: int where "O_WRONLY = 1"
definition O_RDWR :: int where "O_RDWR = 2"
definition O_CREATE :: int where "O_CREATE = 64"
definition SeekStart :: int where "SeekStart = 0"

text \<open>
  A non-nil Go \<open>error\<close>. convertError and Read look at an error only through five
  predicates of the standard library and one comparison, so an error value is the record
  of what they answer on it: \<open>os.IsExist(err)\<close>, \<open>os.IsNotExist(err)\<close>,
  \<open>os.IsPermission(err)\<close>, \<open>errors.Is(err, os.ErrInvalid)\<close>,
  \<open>errors.Is(err, os.ErrClosed)\<close> and \<open>err == io.EOF\<close>. The nil error is \<open>None\<close>.
\<close>

record go_error =
  os_IsExist :: bool
  os_IsNotExist :: bool
  os_IsPermission :: bool
  is_ErrInvalid :: bool
  is_ErrClosed :: bool
  is_EOF :: bool

text \<open>Some errors of the standard library, for examples.\<close>

definition other_error :: go_error where
  "other_error = \<lparr>os_IsExist = False, os_IsNotExist = False, os_IsPermission = False,
     is_ErrInvalid = False, is_ErrClosed = False, is_EOF = False\<rparr>"

definition ErrExist :: go_error where "ErrExist = other_error\<lparr>os_IsExist := True\<rparr>"
definition ErrNotExist :: go_error where "ErrNotExist = other_error\<lparr>os_IsNotExist := True\<rparr>"
definition ErrPermission :: go_error where "ErrPermission = other_error\<lparr>os_IsPermission := True\<rparr>"
definition ErrInvalid :: go_error where "ErrInvalid = other_error\<lparr>is_ErrInvalid := True\<rparr>"
definition ErrClosed :: go_error where "ErrClosed = other_error\<lparr>is_ErrClosed := True\<rparr>"
definition EOF :: go_error where "EOF = other_error\<lparr>is_EOF := True\<rparr>"

text \<open>
  \<open>time.Time\<close> as the two readings \<open>fuse.NewTimespec\<close> takes of it, \<open>t.Unix()\<close> and
  \<open>t.Nanosecond()\<close>; \<open>fuse.Timespec\<close>; and the two conversions of package fuse:
  \<open>NewTimespec(t) = Timespec{t.Unix(), int64(t.Nanosecond())}\<close> and
  \<open>ts.Time() = time.Unix(ts.Sec, ts.Nsec)\<close>, which carries whole seconds of \<open>Nsec\<close> over
  into the seconds.
\<close>

record go_time =
  t_Unix :: i64
  t_Nanosecond :: i64

record Timespec =
  Sec :: i64
  Nsec :: i64

definition NewTimespec :: "go_time \<Rightarrow> Timespec" where
  "NewTimespec t = \<lparr>Sec = t_Unix t, Nsec = t_Nanosecond t\<rparr>"

definition Timespec_Time :: "Timespec \<Rightarrow> go_time" where
  "Timespec_Time ts =
     \<lparr>t_Unix = Sec ts + word_of_int (sint (Nsec ts) div 1000000000),
      t_Nanosecond = word_of_int (sint (Nsec ts) mod 1000000000)\<rparr>"

text \<open>\<open>fuse.Stat_t\<close>, and its zero value.\<close>

record Stat_t =
  Dev :: u64
  Ino :: u64
  Mode :: u32
  Nlink :: u32
  Uid :: u32
  Gid :: u32
  Rdev :: u64
  Size :: i64
  Atim :: Timespec
  Mtim :: Timespec
  Ctim :: Timespec
  Blksize :: i64
  Blocks :: i64
  Birthtim :: Timespec
  Flags :: u32

definition zero_Timespec :: Timespec where
  "zero_Timespec = \<lparr>Sec = 0, Nsec = 0\<rparr>"

definition zero_Stat_t :: Stat_t where
  "zero_Stat_t = \<lparr>Dev = 0, Ino = 0, Mode = 0, Nlink = 0, Uid = 0, Gid = 0, Rdev = 0,
     Size = 0, Atim = zero_Timespec, Mtim = zero_Timespec, Ctim = zero_Timespec,
     Blksize = 0, Blocks = 0, Birthtim = zero_Timespec, Flags = 0\<rparr>"

text \<open>
  An \<open>os.FileInfo\<close>, as what its methods \<open>Name()\<close>, \<open>Size()\<close>, \<open>Mode()\<close>, \<open>ModTime()\<close> and
  \<open>IsDir()\<close> return (\<open>os.FileMode\<close> is a \<open>uint32\<close>). \<open>IsDir()\<close> is a method of its own: the
  interface does not tie it to the bits of \<open>Mode()\<close>.
\<close>

record FileInfo =
  fi_Name :: string
  fi_Size :: i64
  fi_Mode :: u32
  fi_ModTime :: go_time
  fi_IsDir :: bool

section \<open>Error translation and attribute conversion\<close>

text \<open>convertError (lib.go, the last function).\<close>

definition convertError :: "go_error option \<Rightarrow> int" where
  "convertError err =
     (case err of
        None \<Rightarrow> 0
      | Some e \<Rightarrow>
          if os_IsExist e then - EEXIST
          else if os_IsNotExist e then - ENOENT
          else if os_IsPermission e then - EPERM
          else if is_ErrInvalid e \<or> is_ErrClosed e then - EINVAL
          else - EIO)"

text \<open>
  fileInfoToStat writes a whole new \<open>Stat_t\<close> through the pointer \<open>out\<close>: whatever the
  caller's structure held before is gone, so the model returns the structure written.
\<close>

definition fileInfoToStat :: "FileInfo \<Rightarrow> Stat_t" where
  "fileInfoToStat fi =
     (let out = zero_Stat_t\<lparr>Size := fi_Size fi, Mtim := NewTimespec (fi_ModTime fi),
                            Mode := fi_Mode fi\<rparr>
      in if fi_IsDir fi then out\<lparr>Mode := Mode out OR S_IFDIR\<rparr> else out)"

section \<open>The filesystem underneath\<close>

text \<open>
  The wrapper reaches the world outside only through the methods of the \<open>billy.Basic\<close> it
  was built with, the methods of the \<open>billy.File\<close> objects that filesystem returns, and the
  \<open>fill\<close> callback of Readdir. What they do is not this package's code: each is a
  parameter, a function from the state \<open>'w\<close> of the world outside to its results and the
  new state. An interface value is the record of its methods; a type assertion such as
  \<open>w.underlying.(billy.Dir)\<close> or \<open>fh.(io.WriterAt)\<close> is an optional field. A Go result
  \<open>(x, err)\<close> of which the code reads \<open>x\<close> only when \<open>err\<close> is nil is a sum.
\<close>

record 'w billy_File =
  File_Truncate :: "i64 \<Rightarrow> 'w \<Rightarrow> go_error option \<times> 'w"
  File_ReadAt :: "byte list \<Rightarrow> i64 \<Rightarrow> 'w \<Rightarrow> ((int \<times> go_error option) \<times> byte list) \<times> 'w"
  File_WriterAt :: "(byte list \<Rightarrow> i64 \<Rightarrow> 'w \<Rightarrow> (int \<times> go_error option) \<times> 'w) option"
  File_Seek :: "i64 \<Rightarrow> int \<Rightarrow> 'w \<Rightarrow> (i64 \<times> go_error option) \<times> 'w"
  File_Write :: "byte list \<Rightarrow> 'w \<Rightarrow> (int \<times> go_error option) \<times> 'w"
  File_Close :: "'w \<Rightarrow> go_error option \<times> 'w"

record 'w billy_Dir =
  Dir_ReadDir :: "string \<Rightarrow> 'w \<Rightarrow> (go_error + FileInfo list) \<times> 'w"
  Dir_MkdirAll :: "string \<Rightarrow> u32 \<Rightarrow> 'w \<Rightarrow> go_error option \<times> 'w"

record 'w billy_Symlink =
  Symlink_Symlink :: "string \<Rightarrow> string \<Rightarrow> 'w \<Rightarrow> go_error option \<times> 'w"
  Symlink_Readlink :: "string \<Rightarrow> 'w \<Rightarrow> (go_error + string) \<times> 'w"

record 'w billy_Change =
  Change_Chmod :: "string \<Rightarrow> u32 \<Rightarrow> 'w \<Rightarrow> go_error option \<times> 'w"
  Change_Chown :: "string \<Rightarrow> int \<Rightarrow> int \<Rightarrow> 'w \<Rightarrow> go_error option \<times> 'w"
  Change_Chtimes :: "string \<Rightarrow> go_time \<Rightarrow> go_time \<Rightarrow> 'w \<Rightarrow> go_error option \<times> 'w"

record 'w billy_Basic =
  Basic_OpenFile :: "string \<Rightarrow> int \<Rightarrow> u32 \<Rightarrow> 'w \<Rightarrow> (go_error + 'w billy_File) \<times> 'w"
  Basic_Stat :: "string \<Rightarrow> 'w \<Rightarrow> (go_error + FileInfo) \<times> 'w"
  Basic_Rename :: "string \<Rightarrow> string \<Rightarrow> 'w \<Rightarrow> go_error option \<times> 'w"
  Basic_Remove :: "string \<Rightarrow> 'w \<Rightarrow> go_error option \<times> 'w"
  as_Dir :: "'w billy_Dir option"
  as_Symlink :: "'w billy_Symlink option"
  as_Change :: "'w billy_Change option"

text \<open>
  What an observer of a run sees, in order: the calls that leave the package, and the
  steps on the wrapper's own shared fields (its two locks, the counter, the two maps).
\<close>

datatype 'w call =
    C_OpenFile string int u32
  | C_Stat string
  | C_Rename string string
  | C_Remove string
  | C_MkdirAll string u32
  | C_ReadDir string
  | C_Symlink string string
  | C_Readlink string
  | C_Chmod string u32
  | C_Chown string int int
  | C_Chtimes string go_time go_time
  | C_Truncate "'w billy_File" i64
  | C_ReadAt "'w billy_File" "byte list" i64
  | C_WriteAt "'w billy_File" "byte list" i64
  | C_Seek "'w billy_File" i64 int
  | C_Write "'w billy_File" "byte list"
  | C_Close "'w billy_File"
  | C_fill string Stat_t i64

datatype 'w event =
    Lock_fdMtx
  | Unlock_fdMtx
  | Incr_nextFd
  | Put_fileDescriptor u64
  | Put_writeLock u64
  | Delete_fileDescriptor u64
  | Delete_writeLock u64
  | Lock_writeLock nat
  | Unlock_writeLock nat
  | Call "'w call"

section \<open>The wrapper and its handle table\<close>

text \<open>
  The struct \<open>wrapper\<close>: \<open>underlying\<close>, \<open>fdMtx\<close> (held or not), \<open>fileDescriptors\<close>,
  \<open>nextFd\<close> and \<open>writeLocks\<close>. The values of \<open>writeLocks\<close> are pointers: \<open>mutexes\<close> is
  the store of the \<open>sync.Mutex\<close> objects made by \<open>new\<close> (held or not, by address) and
  \<open>mutex_count\<close> the next free address. \<open>world\<close> is the state outside and \<open>trace\<close> the
  events so far. A missing key of a Go map reads as the zero value: a nil pointer for
  \<open>writeLocks\<close>, and \<open>(nil, false)\<close> for \<open>fileDescriptors\<close>, which is \<open>None\<close>.
\<close>

record 'w wrapper =
  underlying :: "'w billy_Basic"
  fdMtx :: bool
  fileDescriptors :: "u64 \<rightharpoonup> 'w billy_File"
  nextFd :: u64
  writeLocks :: "u64 \<rightharpoonup> nat"
  mutexes :: "nat \<Rightarrow> bool"
  mutex_count :: nat
  world :: 'w
  trace :: "'w event list"

text \<open>
  How a call ends: it returns, it panics (a nil pointer is dereferenced), or it hangs for
  ever on a mutex that is held (no other goroutine runs in this model to release it).
\<close>

datatype 'a outcome = Returns 'a | Panics | Hangs

definition New :: "'w billy_Basic \<Rightarrow> 'w \<Rightarrow> 'w wrapper" where
  "New u x = \<lparr>underlying = u, fdMtx = False, fileDescriptors = Map.empty, nextFd = 0,
     writeLocks = Map.empty, mutexes = (\<lambda>_. False), mutex_count = 0, world = x, trace = []\<rparr>"

definition emit :: "'w event \<Rightarrow> 'w wrapper \<Rightarrow> 'w wrapper" where
  "emit e w = w\<lparr>trace := trace w @ [e]\<rparr>"

text \<open>A call that leaves the package: it is run on the world outside, and recorded.\<close>

definition invoke :: "'w call \<Rightarrow> ('w \<Rightarrow> 'a \<times> 'w) \<Rightarrow> 'w wrapper \<Rightarrow> 'a \<times> 'w wrapper" where
  "invoke c f w = (let (r, x) = f (world w) in (r, emit (Call c) (w\<lparr>world := x\<rparr>)))"

text \<open>
  The statements on the shared fields, one definition each. \<open>Lock\<close> on a mutex that is
  held blocks: the callers below test that first.
\<close>

definition fdMtx_Lock :: "'w wrapper \<Rightarrow> 'w wrapper" where
  "fdMtx_Lock w = emit Lock_fdMtx (w\<lparr>fdMtx := True\<rparr>)"

definition fdMtx_Unlock :: "'w wrapper \<Rightarrow> 'w wrapper" where
  "fdMtx_Unlock w = emit Unlock_fdMtx (w\<lparr>fdMtx := False\<rparr>)"

definition nextFd_incr :: "'w wrapper \<Rightarrow> 'w wrapper" where
  "nextFd_incr w = emit Incr_nextFd (w\<lparr>nextFd := nextFd w + 1\<rparr>)"

definition fileDescriptors_put :: "u64 \<Rightarrow> 'w billy_File \<Rightarrow> 'w wrapper \<Rightarrow> 'w wrapper" where
  "fileDescriptors_put fd fh w =
     emit (Put_fileDescriptor fd) (w\<lparr>fileDescriptors := (fileDescriptors w)(fd \<mapsto> fh)\<rparr>)"

definition writeLocks_put :: "u64 \<Rightarrow> nat \<Rightarrow> 'w wrapper \<Rightarrow> 'w wrapper" where
  "writeLocks_put fd p w = emit (Put_writeLock fd) (w\<lparr>writeLocks := (writeLocks w)(fd \<mapsto> p)\<rparr>)"

definition fileDescriptors_delete :: "u64 \<Rightarrow> 'w wrapper \<Rightarrow> 'w wrapper" where
  "fileDescriptors_delete fd w =
     emit (Delete_fileDescriptor fd) (w\<lparr>fileDescriptors := (fileDescriptors w)(fd := None)\<rparr>)"

definition writeLocks_delete :: "u64 \<Rightarrow> 'w wrapper \<Rightarrow> 'w wrapper" where
  "writeLocks_delete fd w =
     emit (Delete_writeLock fd) (w\<lparr>writeLocks := (writeLocks w)(fd := None)\<rparr>)"

text \<open>\<open>new(sync.Mutex)\<close>: a mutex at an address not used before, not held.\<close>

definition new_Mutex :: "'w wrapper \<Rightarrow> nat \<times> 'w wrapper" where
  "new_Mutex w =
     (mutex_count w,
      w\<lparr>mutexes := (mutexes w)(mutex_count w := False), mutex_count := Suc (mutex_count w)\<rparr>)"

definition Mutex_Lock :: "nat \<Rightarrow> 'w wrapper \<Rightarrow> 'w wrapper" where
  "Mutex_Lock p w = emit (Lock_writeLock p) (w\<lparr>mutexes := (mutexes w)(p := True)\<rparr>)"

definition Mutex_Unlock :: "nat \<Rightarrow> 'w wrapper \<Rightarrow> 'w wrapper" where
  "Mutex_Unlock p w = emit (Unlock_writeLock p) (w\<lparr>mutexes := (mutexes w)(p := False)\<rparr>)"

text \<open>createFileDescriptor, getFileDescriptor and getFileDescriptorWithLock.\<close>

definition createFileDescriptor :: "'w billy_File \<Rightarrow> 'w wrapper \<Rightarrow> u64 outcome \<times> 'w wrapper" where
  "createFileDescriptor fh w =
     (if fdMtx w then (Hangs, w)
      else
        let w = fdMtx_Lock w;
            w = nextFd_incr w;
            fd = nextFd w;
            w = fileDescriptors_put fd fh w;
            (p, w) = new_Mutex w;
            w = writeLocks_put fd p w
        in (Returns fd, fdMtx_Unlock w))"

definition getFileDescriptor ::
  "u64 \<Rightarrow> 'w wrapper \<Rightarrow> 'w billy_File option outcome \<times> 'w wrapper" where
  "getFileDescriptor fd w =
     (if fdMtx w then (Hangs, w)
      else
        let w = fdMtx_Lock w;
            fh_ok = fileDescriptors w fd
        in (Returns fh_ok, fdMtx_Unlock w))"

text \<open>
  getFileDescriptorWithLock calls \<open>Lock\<close> on \<open>w.writeLocks[fd]\<close> before anyone has looked
  at \<open>ok\<close>. For a key that is not in \<open>writeLocks\<close> that pointer is nil, and \<open>Lock\<close> on a nil
  \<open>*sync.Mutex\<close> dereferences it: the function panics, and the deferred
  \<open>w.fdMtx.Unlock()\<close> runs on the way out. When the mutex is held the call waits, still
  holding \<open>fdMtx\<close>. The \<open>unlock\<close> returned is the bound method of the mutex locked: the
  model returns its address, and calling \<open>unlock()\<close> is \<open>Mutex_Unlock\<close> on it.
\<close>

definition getFileDescriptorWithLock ::
  "u64 \<Rightarrow> 'w wrapper \<Rightarrow> ('w billy_File option \<times> nat) outcome \<times> 'w wrapper" where
  "getFileDescriptorWithLock fd w =
     (if fdMtx w then (Hangs, w)
      else
        let w = fdMtx_Lock w;
            fh_ok = fileDescriptors w fd
        in case writeLocks w fd of
             None \<Rightarrow> (Panics, fdMtx_Unlock w)
           | Some p \<Rightarrow>
               if mutexes w p then (Hangs, w)
               else
                 let w = Mutex_Lock p w;
                     unlock = p
                 in (Returns (fh_ok, unlock), fdMtx_Unlock w))"

section \<open>The callbacks\<close>

text \<open>
  Each method of \<open>wrapper\<close>, in the order of lib.go, with the arguments of the source (an
  argument the body never reads is kept when it is a plain value, and left out when it is
  a structure of package fuse the body never touches). A method that writes through a
  pointer or into a slice returns what it wrote beside its return code.
\<close>

definition Init :: "'w wrapper \<Rightarrow> unit outcome \<times> 'w wrapper" where
  "Init w = (Returns (), w)"

definition Destroy :: "'w wrapper \<Rightarrow> unit outcome \<times> 'w wrapper" where
  "Destroy w = (Returns (), w)"

definition Statfs :: "string \<Rightarrow> 'w wrapper \<Rightarrow> int outcome \<times> 'w wrapper" where
  "Statfs path w = (Returns (- ENOSYS), w)"

definition Mknod :: "string \<Rightarrow> u32 \<Rightarrow> u64 \<Rightarrow> 'w wrapper \<Rightarrow> int outcome \<times> 'w wrapper" where
  "Mknod path mode dev w = (Returns (- ENOSYS), w)"

definition Mkdir :: "string \<Rightarrow> u32 \<Rightarrow> 'w wrapper \<Rightarrow> int outcome \<times> 'w wrapper" where
  "Mkdir path mode w =
     (case as_Dir (underlying w) of
        Some dfs \<Rightarrow>
          let (err, w) = invoke (C_MkdirAll path mode) (Dir_MkdirAll dfs path mode) w
          in (Returns (convertError err), w)
      | None \<Rightarrow> (Returns (- ENOSYS), w))"

definition Unlink :: "string \<Rightarrow> 'w wrapper \<Rightarrow> int outcome \<times> 'w wrapper" where
  "Unlink path w =
     (let (err, w) = invoke (C_Remove path) (Basic_Remove (underlying w) path) w
      in (Returns (convertError err), w))"

definition Rmdir :: "string \<Rightarrow> 'w wrapper \<Rightarrow> int outcome \<times> 'w wrapper" where
  "Rmdir path w =
     (let (err, w) = invoke (C_Remove path) (Basic_Remove (underlying w) path) w
      in (Returns (convertError err), w))"

definition Link :: "string \<Rightarrow> string \<Rightarrow> 'w wrapper \<Rightarrow> int outcome \<times> 'w wrapper" where
  "Link oldpath newpath w = (Returns (- ENOSYS), w)"

definition Symlink :: "string \<Rightarrow> string \<Rightarrow> 'w wrapper \<Rightarrow> int outcome \<times> 'w wrapper" where
  "Symlink target newpath w =
     (case as_Symlink (underlying w) of
        Some sfs \<Rightarrow>
          let (err, w) = invoke (C_Symlink target newpath) (Symlink_Symlink sfs target newpath) w
          in (Returns (convertError err), w)
      | None \<Rightarrow> (Returns (- ENOSYS), w))"

definition Readlink :: "string \<Rightarrow> 'w wrapper \<Rightarrow> (int \<times> string) outcome \<times> 'w wrapper" where
  "Readlink path w =
     (case as_Symlink (underlying w) of
        Some sfs \<Rightarrow>
          (case invoke (C_Readlink path) (Symlink_Readlink sfs path) w of
             (Inl err, w) \<Rightarrow> (Returns (convertError (Some err), []), w)
           | (Inr fn, w) \<Rightarrow> (Returns (0, fn), w))
      | None \<Rightarrow> (Returns (- ENOSYS, []), w))"

definition Rename :: "string \<Rightarrow> string \<Rightarrow> 'w wrapper \<Rightarrow> int outcome \<times> 'w wrapper" where
  "Rename oldpath newpath w =
     (let (err, w) = invoke (C_Rename oldpath newpath) (Basic_Rename (underlying w) oldpath newpath) w
      in (Returns (convertError err), w))"

definition Chmod :: "string \<Rightarrow> u32 \<Rightarrow> 'w wrapper \<Rightarrow> int outcome \<times> 'w wrapper" where
  "Chmod path mode w =
     (case as_Change (underlying w) of
        Some cfs \<Rightarrow>
          let (err, w) = invoke (C_Chmod path mode) (Change_Chmod cfs path mode) w
          in (Returns (convertError err), w)
      | None \<Rightarrow> (Returns (- ENOSYS), w))"

definition Chown :: "string \<Rightarrow> u32 \<Rightarrow> u32 \<Rightarrow> 'w wrapper \<Rightarrow> int outcome \<times> 'w wrapper" where
  "Chown path uid gid w =
     (case as_Change (underlying w) of
        Some cfs \<Rightarrow>
          let (err, w) = invoke (C_Chown path (uint uid) (uint gid))
                           (Change_Chown cfs path (uint uid) (uint gid)) w
          in (Returns (convertError err), w)
      | None \<Rightarrow> (Returns (- ENOSYS), w))"

definition Utimens :: "string \<Rightarrow> Timespec list \<Rightarrow> 'w wrapper \<Rightarrow> int outcome \<times> 'w wrapper" where
  "Utimens path tmsp w =
     (case as_Change (underlying w) of
        Some cfs \<Rightarrow>
          if length tmsp \<noteq> 2 then (Returns (- EINVAL), w)
          else
            let atime = Timespec_Time (tmsp ! 0);
                mtime = Timespec_Time (tmsp ! 1);
                (err, w) = invoke (C_Chtimes path atime mtime) (Change_Chtimes cfs path atime mtime) w
            in (Returns (convertError err), w)
      | None \<Rightarrow> (Returns (- ENOSYS), w))"

definition Access :: "string \<Rightarrow> u32 \<Rightarrow> 'w wrapper \<Rightarrow> int outcome \<times> 'w wrapper" where
  "Access path msk w = (Returns (- ENOSYS), w)"

text \<open>
  Create and Open: on success the handle is whatever createFileDescriptor returns (and
  the call ends as it ends); on failure the handle is 0.
\<close>

definition Create :: "string \<Rightarrow> int \<Rightarrow> u32 \<Rightarrow> 'w wrapper \<Rightarrow> (int \<times> u64) outcome \<times> 'w wrapper" where
  "Create path flags mode w =
     (case invoke (C_OpenFile path (flags OR O_CREATE OR O_RDWR) mode)
             (Basic_OpenFile (underlying w) path (flags OR O_CREATE OR O_RDWR) mode) w of
        (Inl err, w) \<Rightarrow> (Returns (convertError (Some err), 0), w)
      | (Inr fh, w) \<Rightarrow>
          (case createFileDescriptor fh w of
             (Returns fd, w) \<Rightarrow> (Returns (0, fd), w)
           | (Panics, w) \<Rightarrow> (Panics, w)
           | (Hangs, w) \<Rightarrow> (Hangs, w)))"

definition Open :: "string \<Rightarrow> int \<Rightarrow> 'w wrapper \<Rightarrow> (int \<times> u64) outcome \<times> 'w wrapper" where
  "Open path flags w =
     (case invoke (C_OpenFile path (flags OR O_RDONLY) 0x1FF)
             (Basic_OpenFile (underlying w) path (flags OR O_RDONLY) 0x1FF) w of
        (Inl err, w) \<Rightarrow> (Returns (convertError (Some err), 0), w)
      | (Inr fh, w) \<Rightarrow>
          (case createFileDescriptor fh w of
             (Returns fd, w) \<Rightarrow> (Returns (0, fd), w)
           | (Panics, w) \<Rightarrow> (Panics, w)
           | (Hangs, w) \<Rightarrow> (Hangs, w)))"

definition Getattr :: "string \<Rightarrow> Stat_t \<Rightarrow> u64 \<Rightarrow> 'w wrapper \<Rightarrow> (int \<times> Stat_t) outcome \<times> 'w wrapper" where
  "Getattr path stat fd w =
     (case invoke (C_Stat path) (Basic_Stat (underlying w) path) w of
        (Inl err, w) \<Rightarrow> (Returns (convertError (Some err), stat), w)
      | (Inr fi, w) \<Rightarrow> (Returns (0, fileInfoToStat fi), w))"


text \<open>
  Truncate. \<open>^uint64(0)\<close> is the word with all 64 bits set. On the path branch the
  deferred \<open>fh.Close()\<close> runs after the return value has been computed, and what it
  returns is dropped.
\<close>

definition Truncate :: "string \<Rightarrow> i64 \<Rightarrow> u64 \<Rightarrow> 'w wrapper \<Rightarrow> int outcome \<times> 'w wrapper" where
  "Truncate path sz fd w =
     (if fd \<noteq> NOT 0 then
        (case getFileDescriptor fd w of
           (Returns None, w) \<Rightarrow> (Returns (- EINVAL), w)
         | (Returns (Some fh), w) \<Rightarrow>
             let (err, w) = invoke (C_Truncate fh sz) (File_Truncate fh sz) w
             in (Returns (convertError err), w)
         | (Panics, w) \<Rightarrow> (Panics, w)
         | (Hangs, w) \<Rightarrow> (Hangs, w))
      else
        (case invoke (C_OpenFile path O_WRONLY 0x1FF)
                (Basic_OpenFile (underlying w) path O_WRONLY 0x1FF) w of
           (Inl err, w) \<Rightarrow> (Returns (convertError (Some err)), w)
         | (Inr fh, w) \<Rightarrow>
             let (err, w) = invoke (C_Truncate fh sz) (File_Truncate fh sz) w;
                 (_, w) = invoke (C_Close fh) (File_Close fh) w
             in (Returns (convertError err), w)))"

text \<open>\<open>err == io.EOF\<close>, for an \<open>err\<close> that may be nil.\<close>

definition is_io_EOF :: "go_error option \<Rightarrow> bool" where
  "is_io_EOF err = (case err of None \<Rightarrow> False | Some e \<Rightarrow> is_EOF e)"

text \<open>Read returns its code and the contents of \<open>buff\<close> after the call.\<close>

definition Read ::
  "string \<Rightarrow> byte list \<Rightarrow> i64 \<Rightarrow> u64 \<Rightarrow> 'w wrapper \<Rightarrow> (int \<times> byte list) outcome \<times> 'w wrapper" where
  "Read path buff ofst fd w =
     (case getFileDescriptor fd w of
        (Returns None, w) \<Rightarrow> (Returns (- EINVAL, buff), w)
      | (Returns (Some fh), w) \<Rightarrow>
          let (((n, err), buff), w) = invoke (C_ReadAt fh buff ofst) (File_ReadAt fh buff ofst) w
          in if n > 0 \<or> is_io_EOF err then (Returns (n, buff), w)
             else (Returns (convertError err, buff), w)
      | (Panics, w) \<Rightarrow> (Panics, w)
      | (Hangs, w) \<Rightarrow> (Hangs, w))"

text \<open>
  Write. With an \<open>io.WriterAt\<close> the write lock is released before the write; otherwise
  \<open>defer unlock()\<close> releases it on each of the three returns that follow. The return on
  \<open>!ok\<close> comes before the \<open>defer\<close>: it leaves the mutex locked.
\<close>

definition Write ::
  "string \<Rightarrow> byte list \<Rightarrow> i64 \<Rightarrow> u64 \<Rightarrow> 'w wrapper \<Rightarrow> int outcome \<times> 'w wrapper" where
  "Write path buff ofst fd w =
     (case getFileDescriptorWithLock fd w of
        (Returns (None, unlock), w) \<Rightarrow> (Returns (- EINVAL), w)
      | (Returns (Some fh, unlock), w) \<Rightarrow>
          (case File_WriterAt fh of
             Some WriteAt \<Rightarrow>
               let w = Mutex_Unlock unlock w;
                   ((n, err), w) = invoke (C_WriteAt fh buff ofst) (WriteAt buff ofst) w
               in (case err of
                     Some e \<Rightarrow> (Returns (convertError (Some e)), w)
                   | None \<Rightarrow> (Returns n, w))
           | None \<Rightarrow>
               (case invoke (C_Seek fh ofst SeekStart) (File_Seek fh ofst SeekStart) w of
                  ((_, Some e), w) \<Rightarrow> (Returns (convertError (Some e)), Mutex_Unlock unlock w)
                | ((_, None), w) \<Rightarrow>
                    let ((n, err), w) = invoke (C_Write fh buff) (File_Write fh buff) w
                    in (case err of
                          Some e \<Rightarrow> (Returns (convertError (Some e)), Mutex_Unlock unlock w)
                        | None \<Rightarrow> (Returns n, Mutex_Unlock unlock w))))
      | (Panics, w) \<Rightarrow> (Panics, w)
      | (Hangs, w) \<Rightarrow> (Hangs, w))"

definition Flush :: "string \<Rightarrow> u64 \<Rightarrow> 'w wrapper \<Rightarrow> int outcome \<times> 'w wrapper" where
  "Flush path fd w = (Returns (- ENOSYS), w)"

text \<open>Release: \<open>fh.Close()\<close> is called with \<open>fdMtx\<close> still held.\<close>

definition Release :: "string \<Rightarrow> u64 \<Rightarrow> 'w wrapper \<Rightarrow> int outcome \<times> 'w wrapper" where
  "Release path fd w =
     (if fdMtx w then (Hangs, w)
      else
        let w = fdMtx_Lock w
        in case fileDescriptors w fd of
             None \<Rightarrow> (Returns (- EINVAL), fdMtx_Unlock w)
           | Some fh \<Rightarrow>
               let w = fileDescriptors_delete fd w;
                   w = writeLocks_delete fd w;
                   (err, w) = invoke (C_Close fh) (File_Close fh) w
               in (Returns (convertError err), fdMtx_Unlock w))"

definition Fsync :: "string \<Rightarrow> bool \<Rightarrow> u64 \<Rightarrow> 'w wrapper \<Rightarrow> int outcome \<times> 'w wrapper" where
  "Fsync path datasync fd w = (Returns (- ENOSYS), w)"

definition Opendir :: "string \<Rightarrow> 'w wrapper \<Rightarrow> (int \<times> u64) outcome \<times> 'w wrapper" where
  "Opendir path w =
     (if fdMtx w then (Hangs, w)
      else
        let w = fdMtx_Lock w;
            w = nextFd_incr w
        in (Returns (0, nextFd w), fdMtx_Unlock w))"

text \<open>
  Readdir. The loop over \<open>entries\<close> is \<open>fill_entries\<close>; what \<open>fill\<close> returns is not read.
  After the loop control leaves the \<open>if\<close> and reaches the last line of the function.
\<close>

fun fill_entries ::
  "(string \<Rightarrow> Stat_t \<Rightarrow> i64 \<Rightarrow> 'w \<Rightarrow> bool \<times> 'w) \<Rightarrow> FileInfo list \<Rightarrow> 'w wrapper \<Rightarrow> 'w wrapper" where
  "fill_entries fill [] w = w"
| "fill_entries fill (e # entries) w =
     (let st = fileInfoToStat e;
          (_, w) = invoke (C_fill (fi_Name e) st 0) (fill (fi_Name e) st 0) w
      in fill_entries fill entries w)"

definition Readdir ::
  "string \<Rightarrow> (string \<Rightarrow> Stat_t \<Rightarrow> i64 \<Rightarrow> 'w \<Rightarrow> bool \<times> 'w) \<Rightarrow> i64 \<Rightarrow> u64 \<Rightarrow> 'w wrapper
     \<Rightarrow> int outcome \<times> 'w wrapper" where
  "Readdir path fill ofst fh w =
     (case as_Dir (underlying w) of
        Some dfs \<Rightarrow>
          (case invoke (C_ReadDir path) (Dir_ReadDir dfs path) w of
             (Inl err, w) \<Rightarrow> (Returns (convertError (Some err)), w)
           | (Inr entries, w) \<Rightarrow> (Returns (- ENOSYS), fill_entries fill entries w))
      | None \<Rightarrow> (Returns (- ENOSYS), w))"

definition Releasedir :: "string \<Rightarrow> u64 \<Rightarrow> 'w wrapper \<Rightarrow> int outcome \<times> 'w wrapper" where
  "Releasedir path fd w = (Returns 0, w)"

definition Fsyncdir :: "string \<Rightarrow> bool \<Rightarrow> u64 \<Rightarrow> 'w wrapper \<Rightarrow> int outcome \<times> 'w wrapper" where
  "Fsyncdir path datasync fd w = (Returns (- ENOSYS), w)"

definition Setxattr ::
  "string \<Rightarrow> string \<Rightarrow> byte list \<Rightarrow> int \<Rightarrow> 'w wrapper \<Rightarrow> int outcome \<times> 'w wrapper" where
  "Setxattr path name val flags w = (Returns (- ENOSYS), w)"

definition Getxattr :: "string \<Rightarrow> string \<Rightarrow> 'w wrapper \<Rightarrow> (int \<times> byte list) outcome \<times> 'w wrapper" where
  "Getxattr path name w = (Returns (- ENOSYS, []), w)"

definition Removexattr :: "string \<Rightarrow> string \<Rightarrow> 'w wrapper \<Rightarrow> int outcome \<times> 'w wrapper" where
  "Removexattr path name w = (Returns (- ENOSYS), w)"

definition Listxattr ::
  "string \<Rightarrow> (string \<Rightarrow> 'w \<Rightarrow> bool \<times> 'w) \<Rightarrow> 'w wrapper \<Rightarrow> int outcome \<times> 'w wrapper" where
  "Listxattr path fill w = (Returns (- ENOSYS), w)"


section \<open>Runs of callbacks\<close>

text \<open>
  The driver calls the callbacks; an \<open>op\<close> is a call with its arguments, \<open>ret\<close> what it
  returns, \<open>step\<close> one call and \<open>run\<close> a sequence of calls, one after the other, on
  the same wrapper. The calls come in three groups: the callbacks that answer \<open>-ENOSYS\<close>
  whatever they are given, those that forward a path to the filesystem underneath, and
  those that work on the handle table. A run goes on after a call that panicked (cgofuse
  recovers a panic of a callback and answers the kernel with an error) and after one
  that blocked: the theorems below hold with and without the calls after it.
\<close>

datatype 'w stub_op =
    OpStatfs string
  | OpMknod string u32 u64
  | OpLink string string
  | OpAccess string u32
  | OpFlush string u64
  | OpFsync string bool u64
  | OpFsyncdir string bool u64
  | OpSetxattr string string "byte list" int
  | OpGetxattr string string
  | OpRemovexattr string string
  | OpListxattr string "string \<Rightarrow> 'w \<Rightarrow> bool \<times> 'w"

datatype 'w path_op =
    OpMkdir string u32
  | OpUnlink string
  | OpRmdir string
  | OpSymlink string string
  | OpReadlink string
  | OpRename string string
  | OpChmod string u32
  | OpChown string u32 u32
  | OpUtimens string "Timespec list"
  | OpGetattr string Stat_t u64
  | OpReaddir string "string \<Rightarrow> Stat_t \<Rightarrow> i64 \<Rightarrow> 'w \<Rightarrow> bool \<times> 'w" i64 u64

datatype handle_op =
    OpInit
  | OpDestroy
  | OpCreate string int u32
  | OpOpen string int
  | OpTruncate string i64 u64
  | OpRead string "byte list" i64 u64
  | OpWrite string "byte list" i64 u64
  | OpRelease string u64
  | OpOpendir string
  | OpReleasedir string u64

datatype 'w op = Stub "'w stub_op" | Path "'w path_op" | Handle handle_op

datatype ret =
    Ret_unit
  | Ret_int int
  | Ret_handle int u64
  | Ret_string int string
  | Ret_bytes int "byte list"
  | Ret_stat int Stat_t

definition returning :: "('a \<Rightarrow> ret) \<Rightarrow> 'a outcome \<times> 'w wrapper \<Rightarrow> ret outcome \<times> 'w wrapper" where
  "returning f r = (case r of (x, w) \<Rightarrow> (map_outcome f x, w))"

fun step_stub :: "'w stub_op \<Rightarrow> 'w wrapper \<Rightarrow> ret outcome \<times> 'w wrapper" where
  "step_stub (OpStatfs path) w = returning Ret_int (Statfs path w)"
| "step_stub (OpMknod path mode dev) w = returning Ret_int (Mknod path mode dev w)"
| "step_stub (OpLink oldpath newpath) w = returning Ret_int (Link oldpath newpath w)"
| "step_stub (OpAccess path msk) w = returning Ret_int (Access path msk w)"
| "step_stub (OpFlush path fd) w = returning Ret_int (Flush path fd w)"
| "step_stub (OpFsync path datasync fd) w = returning Ret_int (Fsync path datasync fd w)"
| "step_stub (OpFsyncdir path datasync fd) w = returning Ret_int (Fsyncdir path datasync fd w)"
| "step_stub (OpSetxattr path name val flags) w = returning Ret_int (Setxattr path name val flags w)"
| "step_stub (OpGetxattr path name) w = returning (\<lambda>(c, b). Ret_bytes c b) (Getxattr path name w)"
| "step_stub (OpRemovexattr path name) w = returning Ret_int (Removexattr path name w)"
| "step_stub (OpListxattr path fill) w = returning Ret_int (Listxattr path fill w)"

fun step_path :: "'w path_op \<Rightarrow> 'w wrapper \<Rightarrow> ret outcome \<times> 'w wrapper" where
  "step_path (OpMkdir path mode) w = returning Ret_int (Mkdir path mode w)"
| "step_path (OpUnlink path) w = returning Ret_int (Unlink path w)"
| "step_path (OpRmdir path) w = returning Ret_int (Rmdir path w)"
| "step_path (OpSymlink target newpath) w = returning Ret_int (Symlink target newpath w)"
| "step_path (OpReadlink path) w = returning (\<lambda>(c, s). Ret_string c s) (Readlink path w)"
| "step_path (OpRename oldpath newpath) w = returning Ret_int (Rename oldpath newpath w)"
| "step_path (OpChmod path mode) w = returning Ret_int (Chmod path mode w)"
| "step_path (OpChown path uid gid) w = returning Ret_int (Chown path uid gid w)"
| "step_path (OpUtimens path tmsp) w = returning Ret_int (Utimens path tmsp w)"
| "step_path (OpGetattr path stat fd) w = returning (\<lambda>(c, s). Ret_stat c s) (Getattr path stat fd w)"
| "step_path (OpReaddir path fill ofst fh) w = returning Ret_int (Readdir path fill ofst fh w)"

fun step_handle :: "handle_op \<Rightarrow> 'w wrapper \<Rightarrow> ret outcome \<times> 'w wrapper" where
  "step_handle OpInit w = returning (\<lambda>_. Ret_unit) (Init w)"
| "step_handle OpDestroy w = returning (\<lambda>_. Ret_unit) (Destroy w)"
| "step_handle (OpCreate path flags mode) w = returning (\<lambda>(c, h). Ret_handle c h) (Create path flags mode w)"
| "step_handle (OpOpen path flags) w = returning (\<lambda>(c, h). Ret_handle c h) (Open path flags w)"
| "step_handle (OpTruncate path sz fd) w = returning Ret_int (Truncate path sz fd w)"
| "step_handle (OpRead path buff ofst fd) w = returning (\<lambda>(c, b). Ret_bytes c b) (Read path buff ofst fd w)"
| "step_handle (OpWrite path buff ofst fd) w = returning Ret_int (Write path buff ofst fd w)"
| "step_handle (OpRelease path fd) w = returning Ret_int (Release path fd w)"
| "step_handle (OpOpendir path) w = returning (\<lambda>(c, h). Ret_handle c h) (Opendir path w)"
| "step_handle (OpReleasedir path fd) w = returning Ret_int (Releasedir path fd w)"

fun step :: "'w op \<Rightarrow> 'w wrapper \<Rightarrow> ret outcome \<times> 'w wrapper" where
  "step (Stub c) w = step_stub c w"
| "step (Path c) w = step_path c w"
| "step (Handle c) w = step_handle c w"

fun run :: "'w op list \<Rightarrow> 'w wrapper \<Rightarrow> ret outcome list \<times> 'w wrapper" where
  "run [] w = ([], w)"
| "run (c # cs) w =
     (let (r, w) = step c w;
          (rs, w) = run cs w
      in (r # rs, w))"

text \<open>
  The handle a call allocated, if it did: Opendir always allocates; Create and Open
  allocate when they return code 0 (on failure they return the handle 0, which is no
  allocation).
\<close>

definition allocated :: "'w op \<Rightarrow> ret outcome \<Rightarrow> u64 option" where
  "allocated c r =
     (case (c, r) of
        (Handle (OpOpendir _), Returns (Ret_handle code h)) \<Rightarrow> Some h
      | (Handle (OpCreate _ _ _), Returns (Ret_handle code h)) \<Rightarrow> if code = 0 then Some h else None
      | (Handle (OpOpen _ _), Returns (Ret_handle code h)) \<Rightarrow> if code = 0 then Some h else None
      | _ \<Rightarrow> None)"

text \<open>The handles a run allocated, in the order of the calls.\<close>

definition handles :: "'w op list \<Rightarrow> 'w wrapper \<Rightarrow> u64 list" where
  "handles cs w = List.map_filter (\<lambda>(c, r). allocated c r) (zip cs (fst (run cs w)))"


section \<open>Properties of traces and of the table\<close>

text \<open>
  \<open>locked_steps P held es\<close>: in the events \<open>es\<close>, read from a point where \<open>fdMtx\<close> is held
  or not as \<open>held\<close> says, \<open>fdMtx\<close> is locked only when free and unlocked only when held,
  every event that satisfies \<open>P\<close> happens while it is held, and it is free at the end.
\<close>

fun locked_steps :: "('w event \<Rightarrow> bool) \<Rightarrow> bool \<Rightarrow> 'w event list \<Rightarrow> bool" where
  "locked_steps P held [] = (\<not> held)"
| "locked_steps P held (Lock_fdMtx # es) = (\<not> held \<and> locked_steps P True es)"
| "locked_steps P held (Unlock_fdMtx # es) = (held \<and> locked_steps P False es)"
| "locked_steps P held (e # es) = ((P e \<longrightarrow> held) \<and> locked_steps P held es)"

definition is_counter_step :: "'w event \<Rightarrow> bool" where
  "is_counter_step e = (e = Incr_nextFd)"

definition is_map_step :: "'w event \<Rightarrow> bool" where
  "is_map_step e =
     (case e of
        Put_fileDescriptor _ \<Rightarrow> True
      | Put_writeLock _ \<Rightarrow> True
      | Delete_fileDescriptor _ \<Rightarrow> True
      | Delete_writeLock _ \<Rightarrow> True
      | _ \<Rightarrow> False)"

text \<open>
  \<open>paired ps ds es\<close>: with the handles \<open>ps\<close> put into \<open>fileDescriptors\<close> and the handles
  \<open>ds\<close> deleted from it since \<open>fdMtx\<close> was last locked, every put and every delete on
  \<open>fileDescriptors\<close> in \<open>es\<close> is followed by the same step on \<open>writeLocks\<close> for the same
  handle before \<open>fdMtx\<close> is next unlocked, and \<open>writeLocks\<close> sees no other put or delete.
\<close>

fun paired :: "u64 list \<Rightarrow> u64 list \<Rightarrow> 'w event list \<Rightarrow> bool" where
  "paired ps ds [] = (ps = [] \<and> ds = [])"
| "paired ps ds (Put_fileDescriptor h # es) = paired (h # ps) ds es"
| "paired ps ds (Put_writeLock h # es) = (h \<in> set ps \<and> paired (removeAll h ps) ds es)"
| "paired ps ds (Delete_fileDescriptor h # es) = paired ps (h # ds) es"
| "paired ps ds (Delete_writeLock h # es) = (h \<in> set ds \<and> paired ps (removeAll h ds) es)"
| "paired ps ds (Unlock_fdMtx # es) = (ps = [] \<and> ds = [] \<and> paired [] [] es)"
| "paired ps ds (_ # es) = paired ps ds es"

text \<open>
  What holds of the wrapper between two calls: \<open>fdMtx\<close> is free, the two maps have the
  same keys, every write lock in the table is an allocated mutex that is free, and no
  two handles share a mutex.
\<close>

definition table_inv :: "'w wrapper \<Rightarrow> bool" where
  "table_inv w \<longleftrightarrow>
     \<not> fdMtx w \<and>
     (\<forall>fd. (fileDescriptors w fd = None) = (writeLocks w fd = None)) \<and>
     (\<forall>fd p. writeLocks w fd = Some p \<longrightarrow> p < mutex_count w \<and> \<not> mutexes w p) \<and>
     (\<forall>fd fd' p. writeLocks w fd = Some p \<longrightarrow> writeLocks w fd' = Some p \<longrightarrow> fd = fd')"

text \<open>
  \<open>sections_ok es\<close>: the events \<open>es\<close> keep to the locking discipline of the table: the
  counter and the two maps change only while \<open>fdMtx\<close> is held, and the two maps change
  together.
\<close>

definition sections_ok :: "'w event list \<Rightarrow> bool" where
  "sections_ok es \<longleftrightarrow>
     locked_steps is_counter_step False es \<and> locked_steps is_map_step False es \<and> paired [] [] es"

text \<open>\<open>same_table w w'\<close>: nothing of the wrapper but the world outside and the trace differs.\<close>

definition same_table :: "'w wrapper \<Rightarrow> 'w wrapper \<Rightarrow> bool" where
  "same_table w w' \<longleftrightarrow>
     underlying w' = underlying w \<and> fdMtx w' = fdMtx w \<and>
     fileDescriptors w' = fileDescriptors w \<and> nextFd w' = nextFd w \<and>
     writeLocks w' = writeLocks w \<and> mutexes w' = mutexes w \<and> mutex_count w' = mutex_count w"

section \<open>What go-billy promises of MkdirAll\<close>

text \<open>
  \<open>ancestors [] path\<close> lists the directories on the way to \<open>path\<close>, \<open>path\<close> last: for
  \<open>/x/y/z\<close> they are \<open>/x\<close>, \<open>/x/y\<close> and \<open>/x/y/z\<close>.
\<close>

fun ancestors :: "string \<Rightarrow> string \<Rightarrow> string list" where
  "ancestors acc [] = (if acc = [] then [] else [acc])"
| "ancestors acc (c # cs) =
     (if c = CHR ''/'' \<and> acc \<noteq> [] then acc # ancestors (acc @ [c]) cs
      else ancestors (acc @ [c]) cs)"

text \<open>
  The documentation of \<open>billy.Dir\<close>: MkdirAll creates a directory named path, along with
  any necessary parents, and returns nil, or else returns an error; if path is already a
  directory, MkdirAll returns nil. With \<open>is_dir x p\<close> for "\<open>p\<close> is a directory in the world
  \<open>x\<close>", that is \<open>MkdirAll_contract is_dir dfs\<close>.
\<close>

definition MkdirAll_contract :: "('w \<Rightarrow> string \<Rightarrow> bool) \<Rightarrow> 'w billy_Dir \<Rightarrow> bool" where
  "MkdirAll_contract is_dir dfs \<longleftrightarrow>
     (\<forall>path mode x.
        (is_dir x path \<longrightarrow> fst (Dir_MkdirAll dfs path mode x) = None) \<and>
        (fst (Dir_MkdirAll dfs path mode x) = None \<longrightarrow>
           (\<forall>p \<in> set (ancestors [] path). is_dir (snd (Dir_MkdirAll dfs path mode x)) p)))"

section \<open>A filesystem for examples\<close>

text \<open>
  A small filesystem in memory, to run the callbacks on: files by path with their bytes,
  and directories by path. Opening creates the file when \<open>O_CREATE\<close> is among the flags;
  \<open>MkdirAll\<close> makes the directory and every missing parent and returns nil, also when the
  directory is there already, and fails on the path of a file. Its files are
  \<open>io.WriterAt\<close>s.
  \<open>cerr\<close> is what \<open>Close\<close> returns on its files: nil, or the error of a filesystem whose
  close fails. It has no symlinks and changes no permissions.
\<close>

record memfs =
  mem_files :: "(string \<times> byte list) list"
  mem_dirs :: "string list"

definition basename :: "string \<Rightarrow> string" where
  "basename p = rev (takeWhile (\<lambda>c. c \<noteq> CHR ''/'') (rev p))"

definition dirname :: "string \<Rightarrow> string" where
  "dirname p =
     (let d = rev (drop 1 (dropWhile (\<lambda>c. c \<noteq> CHR ''/'') (rev p)))
      in if d = [] then ''/'' else d)"

definition mem_file_info :: "string \<Rightarrow> byte list \<Rightarrow> FileInfo" where
  "mem_file_info p c =
     \<lparr>fi_Name = basename p, fi_Size = word_of_nat (length c), fi_Mode = 0x1A4,
      fi_ModTime = \<lparr>t_Unix = 0, t_Nanosecond = 0\<rparr>, fi_IsDir = False\<rparr>"

definition mem_dir_info :: "string \<Rightarrow> FileInfo" where
  "mem_dir_info p =
     \<lparr>fi_Name = basename p, fi_Size = 0, fi_Mode = 0x800001ED,
      fi_ModTime = \<lparr>t_Unix = 0, t_Nanosecond = 0\<rparr>, fi_IsDir = True\<rparr>"

definition mem_File :: "go_error option \<Rightarrow> string \<Rightarrow> memfs billy_File" where
  "mem_File cerr path =
     \<lparr>File_Truncate = (\<lambda>sz m.
        case map_of (mem_files m) path of
          None \<Rightarrow> (Some ErrNotExist, m)
        | Some c \<Rightarrow>
            (None, m\<lparr>mem_files := (path, take (unat sz) (c @ replicate (unat sz) 0)) # mem_files m\<rparr>)),
      File_ReadAt = (\<lambda>buff ofst m.
        case map_of (mem_files m) path of
          None \<Rightarrow> (((0, Some ErrNotExist), buff), m)
        | Some c \<Rightarrow>
            let d = take (length buff) (drop (unat ofst) c)
            in (((int (length d), if length d < length buff then Some EOF else None),
                 d @ drop (length d) buff), m)),
      File_WriterAt = Some (\<lambda>buff ofst m.
        case map_of (mem_files m) path of
          None \<Rightarrow> ((0, Some ErrNotExist), m)
        | Some c \<Rightarrow>
            ((int (length buff), None),
             m\<lparr>mem_files := (path, take (unat ofst) (c @ replicate (unat ofst) 0) @ buff @
                                    drop (unat ofst + length buff) c) # mem_files m\<rparr>)),
      File_Seek = (\<lambda>ofst whence m. ((ofst, None), m)),
      File_Write = (\<lambda>buff m.
        case map_of (mem_files m) path of
          None \<Rightarrow> ((0, Some ErrNotExist), m)
        | Some c \<Rightarrow> ((int (length buff), None), m\<lparr>mem_files := (path, c @ buff) # mem_files m\<rparr>)),
      File_Close = (\<lambda>m. (cerr, m))\<rparr>"

definition mem_Dir :: "memfs billy_Dir" where
  "mem_Dir =
     \<lparr>Dir_ReadDir = (\<lambda>path m.
        if path \<in> set (mem_dirs m) then
          (Inr (map mem_dir_info (filter (\<lambda>d. dirname d = path \<and> d \<noteq> path) (mem_dirs m)) @
                map (\<lambda>(p, c). mem_file_info p c) (filter (\<lambda>(p, c). dirname p = path) (mem_files m))), m)
        else (Inl ErrNotExist, m)),
      Dir_MkdirAll = (\<lambda>path mode m.
        if path \<in> fst ` set (mem_files m) \<and> path \<notin> set (mem_dirs m) then (Some other_error, m)
        else (None, m\<lparr>mem_dirs := mem_dirs m @ filter (\<lambda>d. d \<notin> set (mem_dirs m)) (ancestors [] path)\<rparr>))\<rparr>"

definition mem_Basic :: "go_error option \<Rightarrow> memfs billy_Basic" where
  "mem_Basic cerr =
     \<lparr>Basic_OpenFile = (\<lambda>path flags mode m.
        if path \<in> fst ` set (mem_files m) then (Inr (mem_File cerr path), m)
        else if flags AND O_CREATE \<noteq> 0 then
          (Inr (mem_File cerr path), m\<lparr>mem_files := (path, []) # mem_files m\<rparr>)
        else (Inl ErrNotExist, m)),
      Basic_Stat = (\<lambda>path m.
        if path \<in> set (mem_dirs m) then (Inr (mem_dir_info path), m)
        else case map_of (mem_files m) path of
               Some c \<Rightarrow> (Inr (mem_file_info path c), m)
             | None \<Rightarrow> (Inl ErrNotExist, m)),
      Basic_Rename = (\<lambda>oldpath newpath m.
        case map_of (mem_files m) oldpath of
          Some c \<Rightarrow> (None, m\<lparr>mem_files := (newpath, c) # filter (\<lambda>(p, _). p \<noteq> oldpath) (mem_files m)\<rparr>)
        | None \<Rightarrow> (Some ErrNotExist, m)),
      Basic_Remove = (\<lambda>path m.
        if path \<in> fst ` set (mem_files m) then
          (None, m\<lparr>mem_files := filter (\<lambda>(p, _). p \<noteq> path) (mem_files m)\<rparr>)
        else (Some ErrNotExist, m)),
      as_Dir = Some mem_Dir,
      as_Symlink = None,
      as_Change = None\<rparr>"

text \<open>A world with the root directory and one file \<open>/a\<close> of three bytes.\<close>

definition mem0 :: memfs where
  "mem0 = \<lparr>mem_files = [(''/a'', [1, 2, 3])], mem_dirs = [''/'']\<rparr>"

text \<open>A \<open>fill\<close> that takes every entry it is given.\<close>

definition fill_ok :: "string \<Rightarrow> Stat_t \<Rightarrow> i64 \<Rightarrow> memfs \<Rightarrow> bool \<times> memfs" where
  "fill_ok name st ofst m = (True, m)"


section \<open>Facts about words and constants\<close>

lemmas errno_defs = EPERM_def ENOENT_def EIO_def EEXIST_def EINVAL_def ENOSYS_def

lemmas go_error_defs = other_error_def ErrExist_def ErrNotExist_def ErrPermission_def
  ErrInvalid_def ErrClosed_def EOF_def

lemma or_and_not_same: "(a OR b) AND NOT b = a AND NOT (b :: 'a::len word)"
  by (rule bit_eqI) (auto simp: bit_simps)

lemma or_and_same: "(a OR b) AND b = (b :: 'a::len word)"
  by (rule bit_eqI) (auto simp: bit_simps)

section \<open>Error translation\<close>

text \<open>
  Claim C5. convertError has no argument but the error and reads no state, so the same
  error always gives the same code. It classifies in order: nil gives 0; an error on
  which \<open>os.IsExist\<close> holds gives \<open>-EEXIST\<close>; failing that, one on which \<open>os.IsNotExist\<close>
  holds gives \<open>-ENOENT\<close>; failing that, one on which \<open>os.IsPermission\<close> holds gives
  \<open>-EPERM\<close>; failing that, one that is \<open>os.ErrInvalid\<close> or \<open>os.ErrClosed\<close> gives \<open>-EINVAL\<close>;
  every other error gives \<open>-EIO\<close>. Only the nil error gives 0.
\<close>

theorem convertError_ordered:
  "convertError None = 0 \<and>
   (\<forall>e. os_IsExist e \<longrightarrow> convertError (Some e) = - EEXIST) \<and>
   (\<forall>e. \<not> os_IsExist e \<and> os_IsNotExist e \<longrightarrow> convertError (Some e) = - ENOENT) \<and>
   (\<forall>e. \<not> os_IsExist e \<and> \<not> os_IsNotExist e \<and> os_IsPermission e \<longrightarrow>
        convertError (Some e) = - EPERM) \<and>
   (\<forall>e. \<not> os_IsExist e \<and> \<not> os_IsNotExist e \<and> \<not> os_IsPermission e \<and>
        (is_ErrInvalid e \<or> is_ErrClosed e) \<longrightarrow> convertError (Some e) = - EINVAL) \<and>
   (\<forall>e. \<not> os_IsExist e \<and> \<not> os_IsNotExist e \<and> \<not> os_IsPermission e \<and>
        \<not> is_ErrInvalid e \<and> \<not> is_ErrClosed e \<longrightarrow> convertError (Some e) = - EIO) \<and>
   (\<forall>err. (convertError err = 0) = (err = None))"
  by (auto simp: convertError_def errno_defs split: option.splits)

text \<open>
  The theorem at the errors of the standard library: each is in one class only, and
  \<open>io.EOF\<close> is in none.
\<close>

theorem convertError_ordered_witness:
  "convertError (Some ErrExist) = - 17 \<and> convertError (Some ErrNotExist) = - 2 \<and>
   convertError (Some ErrPermission) = - 1 \<and> convertError (Some ErrInvalid) = - 22 \<and>
   convertError (Some ErrClosed) = - 22 \<and> convertError (Some EOF) = - 5 \<and>
   convertError (Some other_error) = - 5 \<and> convertError None = 0"
  using convertError_ordered by (simp add: go_error_defs errno_defs)

section \<open>Attribute conversion\<close>

text \<open>
  Claim C6. For every \<open>os.FileInfo\<close>, fileInfoToStat gives a \<open>Stat_t\<close> whose size is the
  size of the record and whose modification time is its modification time (seconds and
  nanoseconds); whose mode is the mode of the record, with the directory bit OR-ed in
  when \<open>IsDir()\<close> holds and untouched when it does not, so that every other bit of the
  mode is the record's and a directory always has the directory bit, whatever its
  permission bits; and whose other fields (owner, group, link count, the other
  timestamps, device, inode, block counts, flags) are zero.
\<close>

theorem fileInfoToStat_fields:
  "Size (fileInfoToStat fi) = fi_Size fi \<and>
   Mtim (fileInfoToStat fi) = NewTimespec (fi_ModTime fi) \<and>
   Sec (Mtim (fileInfoToStat fi)) = t_Unix (fi_ModTime fi) \<and>
   Nsec (Mtim (fileInfoToStat fi)) = t_Nanosecond (fi_ModTime fi) \<and>
   Mode (fileInfoToStat fi) = (if fi_IsDir fi then fi_Mode fi OR S_IFDIR else fi_Mode fi) \<and>
   Mode (fileInfoToStat fi) AND NOT S_IFDIR = fi_Mode fi AND NOT S_IFDIR \<and>
   (fi_IsDir fi \<longrightarrow> Mode (fileInfoToStat fi) AND S_IFDIR = S_IFDIR) \<and>
   Uid (fileInfoToStat fi) = 0 \<and> Gid (fileInfoToStat fi) = 0 \<and> Nlink (fileInfoToStat fi) = 0 \<and>
   Atim (fileInfoToStat fi) = zero_Timespec \<and> Ctim (fileInfoToStat fi) = zero_Timespec \<and>
   Birthtim (fileInfoToStat fi) = zero_Timespec \<and>
   Dev (fileInfoToStat fi) = 0 \<and> Ino (fileInfoToStat fi) = 0 \<and> Rdev (fileInfoToStat fi) = 0 \<and>
   Blksize (fileInfoToStat fi) = 0 \<and> Blocks (fileInfoToStat fi) = 0 \<and> Flags (fileInfoToStat fi) = 0"
  by (simp add: fileInfoToStat_def zero_Stat_t_def NewTimespec_def Let_def or_and_not_same or_and_same)

text \<open>
  The theorem at a directory of mode \<open>ModeDir | 0755\<close>, at a file of mode 0644 and three
  bytes, and at a record that is no directory although bit \<open>S_IFDIR\<close> of its mode is set.
\<close>

theorem fileInfoToStat_fields_witness:
  "Mode (fileInfoToStat (mem_dir_info ''/d'')) = 0x800041ED \<and>
   Mode (fileInfoToStat (mem_file_info ''/a'' [1, 2, 3])) = 0x1A4 \<and>
   Size (fileInfoToStat (mem_file_info ''/a'' [1, 2, 3])) = 3 \<and>
   Mode (fileInfoToStat ((mem_file_info ''/a'' [])\<lparr>fi_Mode := 0x4000\<rparr>)) = 0x4000 \<and>
   Uid (fileInfoToStat (mem_dir_info ''/d'')) = 0"
  using fileInfoToStat_fields [of "mem_dir_info ''/d''"]
    fileInfoToStat_fields [of "mem_file_info ''/a'' [1, 2, 3]"]
    fileInfoToStat_fields [of "(mem_file_info ''/a'' [])\<lparr>fi_Mode := 0x4000\<rparr>"]
  by (simp add: mem_dir_info_def mem_file_info_def S_IFDIR_def)


section \<open>Facts about the trace properties\<close>

lemmas prim_defs = emit_def invoke_def fdMtx_Lock_def fdMtx_Unlock_def nextFd_incr_def
  fileDescriptors_put_def writeLocks_put_def fileDescriptors_delete_def writeLocks_delete_def
  new_Mutex_def Mutex_Lock_def Mutex_Unlock_def

lemmas table_defs = createFileDescriptor_def getFileDescriptor_def getFileDescriptorWithLock_def

lemmas flag_defs = O_RDONLY_def O_WRONLY_def O_RDWR_def O_CREATE_def SeekStart_def

lemmas mem_defs = mem_Basic_def mem_File_def mem_Dir_def mem0_def mem_file_info_def
  mem_dir_info_def basename_def dirname_def fill_ok_def

lemma locked_steps_append:
  "locked_steps P h es1 \<Longrightarrow> locked_steps P False es2 \<Longrightarrow> locked_steps P h (es1 @ es2)"
proof (induction es1 arbitrary: h)
  case Nil
  then show ?case by simp
next
  case (Cons e es1)
  then show ?case by (cases e) auto
qed

lemma paired_append:
  "paired ps ds es1 \<Longrightarrow> paired [] [] es2 \<Longrightarrow> paired ps ds (es1 @ es2)"
proof (induction es1 arbitrary: ps ds)
  case Nil
  then show ?case by simp
next
  case (Cons e es1)
  then show ?case by (cases e) auto
qed

lemma sections_ok_Nil: "sections_ok []"
  by (simp add: sections_ok_def)

lemma sections_ok_append: "sections_ok es1 \<Longrightarrow> sections_ok es2 \<Longrightarrow> sections_ok (es1 @ es2)"
  by (simp add: sections_ok_def locked_steps_append paired_append)

lemma sections_ok_Call: "sections_ok (Call c # es) = sections_ok es"
  by (simp add: sections_ok_def is_counter_step_def is_map_step_def)

lemma sections_ok_calls: "sections_ok (map (\<lambda>e. Call (g e)) es)"
  by (induction es) (simp_all add: sections_ok_Nil sections_ok_Call)

lemma sections_ok_lookup: "sections_ok [Lock_fdMtx, Unlock_fdMtx]"
  by (simp add: sections_ok_def)

lemma sections_ok_create:
  "sections_ok [Lock_fdMtx, Incr_nextFd, Put_fileDescriptor h, Put_writeLock h, Unlock_fdMtx]"
  by (simp add: sections_ok_def is_counter_step_def is_map_step_def)

lemma sections_ok_opendir: "sections_ok [Lock_fdMtx, Incr_nextFd, Unlock_fdMtx]"
  by (simp add: sections_ok_def is_counter_step_def is_map_step_def)

lemma sections_ok_release:
  "sections_ok [Lock_fdMtx, Delete_fileDescriptor h, Delete_writeLock h, Call c, Unlock_fdMtx]"
  by (simp add: sections_ok_def is_counter_step_def is_map_step_def)

lemma sections_ok_write_lock:
  "sections_ok (Lock_fdMtx # Lock_writeLock p # Unlock_fdMtx # es) = sections_ok es"
  by (simp add: sections_ok_def is_counter_step_def is_map_step_def)

lemma sections_ok_write_unlock: "sections_ok (Unlock_writeLock p # es) = sections_ok es"
  by (simp add: sections_ok_def is_counter_step_def is_map_step_def)

lemmas sections_ok_simps = sections_ok_Nil sections_ok_Call sections_ok_calls sections_ok_lookup
  sections_ok_create sections_ok_opendir sections_ok_release sections_ok_write_lock
  sections_ok_write_unlock

section \<open>Facts about single calls\<close>

lemma same_table_refl: "same_table w w"
  by (simp add: same_table_def)

lemma same_table_trans: "same_table w w' \<Longrightarrow> same_table w' w'' \<Longrightarrow> same_table w w''"
  by (simp add: same_table_def)

lemma same_table_inv: "same_table w w' \<Longrightarrow> table_inv w \<Longrightarrow> table_inv w'"
  by (simp add: same_table_def table_inv_def)

lemma same_table_invoke: "same_table w (snd (invoke c f w))"
  by (simp add: same_table_def prim_defs split: prod.splits)

lemma trace_invoke: "trace (snd (invoke c f w)) = trace w @ [Call c]"
  by (simp add: prim_defs split: prod.splits)

lemma world_invoke: "world (snd (invoke c f w)) = snd (f (world w))"
  by (simp add: prim_defs split: prod.splits)

lemma same_table_fill_entries: "same_table w (fill_entries fill es w)"
proof (induction es arbitrary: w)
  case Nil
  then show ?case by (simp add: same_table_refl)
next
  case (Cons e es)
  have "same_table w (snd (invoke (C_fill (fi_Name e) (fileInfoToStat e) 0)
          (fill (fi_Name e) (fileInfoToStat e) 0) w))"
    by (rule same_table_invoke)
  with Cons.IH show ?case
    by (auto simp: Let_def split: prod.splits intro: same_table_trans)
qed

lemma trace_fill_entries:
  "trace (fill_entries fill es w) =
     trace w @ map (\<lambda>e. Call (C_fill (fi_Name e) (fileInfoToStat e) 0)) es"
proof (induction es arbitrary: w)
  case Nil
  then show ?case by simp
next
  case (Cons e es)
  have "trace (snd (invoke (C_fill (fi_Name e) (fileInfoToStat e) 0)
          (fill (fi_Name e) (fileInfoToStat e) 0) w)) =
        trace w @ [Call (C_fill (fi_Name e) (fileInfoToStat e) 0)]"
    by (rule trace_invoke)
  with Cons.IH show ?case
    by (auto simp: Let_def split: prod.splits)
qed

lemma world_fill_entries:
  "world (fill_entries fill es w) =
     foldl (\<lambda>x e. snd (fill (fi_Name e) (fileInfoToStat e) 0 x)) (world w) es"
proof (induction es arbitrary: w)
  case Nil
  then show ?case by simp
next
  case (Cons e es)
  have "world (snd (invoke (C_fill (fi_Name e) (fileInfoToStat e) 0)
          (fill (fi_Name e) (fileInfoToStat e) 0) w)) =
        snd (fill (fi_Name e) (fileInfoToStat e) 0 (world w))"
    by (rule world_invoke)
  with Cons.IH show ?case
    by (auto simp: Let_def split: prod.splits)
qed


lemmas fill_entries_fields = same_table_fill_entries [unfolded same_table_def]

lemma step_stub_same: "snd (step_stub c w) = w \<and> fst (step_stub c w) \<noteq> Hangs"
  by (cases c)
    (simp_all add: returning_def Statfs_def Mknod_def Link_def Access_def Flush_def Fsync_def
      Fsyncdir_def Setxattr_def Getxattr_def Removexattr_def Listxattr_def)

lemma step_path_same:
  "same_table w (snd (step_path c w)) \<and> fst (step_path c w) \<noteq> Hangs \<and>
   (\<exists>es. trace (snd (step_path c w)) = trace w @ es \<and> sections_ok es)"
  by (cases c)
    (auto simp: returning_def Mkdir_def Unlink_def Rmdir_def Symlink_def Readlink_def Rename_def
      Chmod_def Chown_def Utimens_def Getattr_def Readdir_def same_table_def prim_defs
      fill_entries_fields trace_fill_entries sections_ok_simps Let_def
      split: option.splits prod.splits sum.splits)


lemma sections_ok_lookup_Cons: "sections_ok (Lock_fdMtx # Unlock_fdMtx # es) = sections_ok es"
  by (simp add: sections_ok_def)

lemma convertError_Some: "convertError (Some e) \<noteq> 0 \<and> convertError (Some e) \<noteq> - ENOSYS"
  by (simp add: convertError_def errno_defs)

lemmas handle_op_defs = Init_def Destroy_def Create_def Open_def Truncate_def Read_def Write_def
  Release_def Opendir_def Releasedir_def

lemma step_handle_inv:
  assumes "table_inv w"
  shows "table_inv (snd (step_handle c w))"
  using assms unfolding table_inv_def
  by (cases c)
    (auto simp: returning_def handle_op_defs table_defs prim_defs Let_def less_Suc_eq
      split: option.splits prod.splits sum.splits outcome.splits if_splits)

lemma step_handle_underlying: "underlying (snd (step_handle c w)) = underlying w"
  by (cases c)
    (auto simp: returning_def handle_op_defs table_defs prim_defs Let_def
      split: option.splits prod.splits sum.splits outcome.splits if_splits)

lemma step_handle_returns:
  assumes "table_inv w"
  shows "fst (step_handle c w) \<noteq> Hangs"
  using assms unfolding table_inv_def
  by (cases c)
    (auto simp: returning_def handle_op_defs table_defs prim_defs Let_def
      split: option.splits prod.splits sum.splits outcome.splits if_splits)

lemma step_handle_trace:
  assumes "table_inv w"
  shows "\<exists>es. trace (snd (step_handle c w)) = trace w @ es \<and> sections_ok es"
  using assms unfolding table_inv_def
  by (cases c)
    (auto simp: returning_def handle_op_defs table_defs prim_defs Let_def sections_ok_simps sections_ok_lookup_Cons
      split: option.splits prod.splits sum.splits outcome.splits if_splits)

lemma step_handle_counter:
  "case allocated (Handle c) (fst (step_handle c w)) of
           None \<Rightarrow>
             nextFd (snd (step_handle c w)) = nextFd w \<and>
             (\<forall>h. fileDescriptors (snd (step_handle c w)) h \<noteq> None \<longrightarrow> fileDescriptors w h \<noteq> None)
         | Some h \<Rightarrow>
             h = nextFd w + 1 \<and> nextFd (snd (step_handle c w)) = nextFd w + 1 \<and>
             (\<forall>h'. fileDescriptors (snd (step_handle c w)) h' \<noteq> None \<longrightarrow>
                   fileDescriptors w h' \<noteq> None \<or> h' = h)"
  by (cases c)
    (auto simp: returning_def handle_op_defs table_defs prim_defs Let_def allocated_def
      convertError_Some
      split: option.splits prod.splits sum.splits outcome.splits if_splits)


section \<open>Facts about runs\<close>

lemma New_inv: "table_inv (New u x)"
  by (simp add: table_inv_def New_def)

lemma step_inv: "table_inv w \<Longrightarrow> table_inv (snd (step c w))"
  using step_stub_same [of _ w] step_path_same [of w] step_handle_inv [of w]
  by (cases c) (auto intro: same_table_inv)

lemma step_underlying: "underlying (snd (step c w)) = underlying w"
  using step_stub_same [of _ w] step_path_same [of w] step_handle_underlying [of _ w]
  by (cases c) (auto simp: same_table_def)

lemma step_returns: "table_inv w \<Longrightarrow> fst (step c w) \<noteq> Hangs"
  using step_stub_same [of _ w] step_path_same [of w] step_handle_returns [of w]
  by (cases c) auto

lemma step_trace:
  "table_inv w \<Longrightarrow> \<exists>es. trace (snd (step c w)) = trace w @ es \<and> sections_ok es"
proof (cases c)
  case (Stub c')
  then show ?thesis using step_stub_same [of c' w] by (simp add: sections_ok_Nil)
next
  case (Path c')
  then show ?thesis using step_path_same [of w c'] by simp
next
  case (Handle c')
  assume "table_inv w"
  with Handle show ?thesis using step_handle_trace [of w c'] by simp
qed

lemma allocated_not_Handle: "allocated (Stub c) r = None" "allocated (Path c') r = None"
  by (simp_all add: allocated_def)

lemma step_counter:
  "case allocated c (fst (step c w)) of
     None \<Rightarrow>
       nextFd (snd (step c w)) = nextFd w \<and>
       (\<forall>h. fileDescriptors (snd (step c w)) h \<noteq> None \<longrightarrow> fileDescriptors w h \<noteq> None)
   | Some h \<Rightarrow>
       h = nextFd w + 1 \<and> nextFd (snd (step c w)) = nextFd w + 1 \<and>
       (\<forall>h'. fileDescriptors (snd (step c w)) h' \<noteq> None \<longrightarrow> fileDescriptors w h' \<noteq> None \<or> h' = h)"
proof (cases c)
  case (Stub c')
  show ?thesis unfolding Stub step.simps
    using step_stub_same [of c' w] by (simp add: allocated_not_Handle)
next
  case (Path c')
  show ?thesis unfolding Path step.simps
    using step_path_same [of w c'] by (simp add: allocated_not_Handle same_table_def)
next
  case (Handle c')
  show ?thesis unfolding Handle step.simps by (rule step_handle_counter)
qed

lemma run_Cons:
  "fst (run (c # cs) w) = fst (step c w) # fst (run cs (snd (step c w)))"
  "snd (run (c # cs) w) = snd (run cs (snd (step c w)))"
  by (simp_all add: Let_def split: prod.splits)

lemma run_inv: "table_inv w \<Longrightarrow> table_inv (snd (run cs w))"
  by (induction cs arbitrary: w) (simp_all add: run_Cons step_inv del: run.simps(2))

lemma run_underlying: "underlying (snd (run cs w)) = underlying w"
  by (induction cs arbitrary: w) (simp_all add: run_Cons step_underlying del: run.simps(2))

lemma run_returns: "table_inv w \<Longrightarrow> Hangs \<notin> set (fst (run cs w))"
proof (induction cs arbitrary: w)
  case Nil
  then show ?case by simp
next
  case (Cons c cs)
  from Cons.prems have "fst (step c w) \<noteq> Hangs" by (rule step_returns)
  moreover from Cons.prems have "Hangs \<notin> set (fst (run cs (snd (step c w))))"
    by (intro Cons.IH step_inv)
  ultimately show ?case by (auto simp: run_Cons simp del: run.simps(2))
qed

lemma run_trace:
  "table_inv w \<Longrightarrow> \<exists>es. trace (snd (run cs w)) = trace w @ es \<and> sections_ok es"
proof (induction cs arbitrary: w)
  case Nil
  then show ?case by (simp add: sections_ok_Nil)
next
  case (Cons c cs)
  from Cons.prems obtain es1 where
    es1: "trace (snd (step c w)) = trace w @ es1" "sections_ok es1"
    using step_trace by blast
  from Cons.prems have "table_inv (snd (step c w))" by (rule step_inv)
  then obtain es2 where
    es2: "trace (snd (run cs (snd (step c w)))) = trace (snd (step c w)) @ es2" "sections_ok es2"
    using Cons.IH by blast
  from es1 es2 have "trace (snd (run (c # cs) w)) = trace w @ (es1 @ es2)"
    by (simp add: run_Cons del: run.simps(2))
  moreover from es1 es2 have "sections_ok (es1 @ es2)" by (simp add: sections_ok_append)
  ultimately show ?case by blast
qed

lemma handles_Nil: "handles [] w = []"
  by (simp add: handles_def List.map_filter_simps)

lemma handles_Cons:
  "handles (c # cs) w =
     (case allocated c (fst (step c w)) of
        None \<Rightarrow> handles cs (snd (step c w))
      | Some h \<Rightarrow> h # handles cs (snd (step c w)))"
  by (simp add: handles_def run_Cons List.map_filter_simps del: run.simps(2) split: option.splits)

lemma run_handles:
  "handles cs w = map (\<lambda>i. nextFd w + word_of_nat (Suc i)) [0..<length (handles cs w)] \<and>
   nextFd (snd (run cs w)) = nextFd w + word_of_nat (length (handles cs w)) \<and>
   (\<forall>h. fileDescriptors (snd (run cs w)) h \<noteq> None \<longrightarrow>
        fileDescriptors w h \<noteq> None \<or> h \<in> set (handles cs w))"
proof (induction cs arbitrary: w)
  case Nil
  then show ?case by (simp add: handles_Nil)
next
  case (Cons c cs)
  let ?w = "snd (step c w)"
  note IH = Cons.IH [of ?w]
  show ?case
  proof (cases "allocated c (fst (step c w))")
    case None
    with step_counter [of c w] have same: "nextFd ?w = nextFd w"
      and res: "\<And>h. fileDescriptors ?w h \<noteq> None \<Longrightarrow> fileDescriptors w h \<noteq> None"
      by auto
    from None have h: "handles (c # cs) w = handles cs ?w" by (simp add: handles_Cons)
    show ?thesis unfolding h run_Cons using IH res by (simp add: same) blast
  next
    case (Some h)
    with step_counter [of c w] have h1: "h = nextFd w + 1" and next1: "nextFd ?w = nextFd w + 1"
      and res: "\<And>h'. fileDescriptors ?w h' \<noteq> None \<Longrightarrow> fileDescriptors w h' \<noteq> None \<or> h' = h"
      by auto
    from Some have h: "handles (c # cs) w = h # handles cs ?w" by (simp add: handles_Cons)
    have shift: "map (\<lambda>i. nextFd w + word_of_nat (Suc i)) [0..<Suc n] =
        (nextFd w + 1) # map (\<lambda>i. nextFd w + 1 + word_of_nat (Suc i)) [0..<n]" for n
      by (simp add: upt_conv_Cons map_Suc_upt [symmetric] ac_simps del: upt_Suc)
    from IH have a: "handles cs ?w =
        map (\<lambda>i. nextFd w + 1 + word_of_nat (Suc i)) [0..<length (handles cs ?w)]"
      by (simp add: next1)
    have "h # handles cs ?w =
        map (\<lambda>i. nextFd w + word_of_nat (Suc i)) [0..<Suc (length (handles cs ?w))]"
      unfolding shift h1 using a by simp
    moreover from IH have "nextFd (snd (run cs ?w)) =
        nextFd w + word_of_nat (Suc (length (handles cs ?w)))"
      by (simp add: next1 ac_simps)
    moreover from IH res have "\<forall>h'. fileDescriptors (snd (run cs ?w)) h' \<noteq> None \<longrightarrow>
        fileDescriptors w h' \<noteq> None \<or> h' \<in> set (h # handles cs ?w)"
      by (metis list.set_intros(1) list.set_intros(2))
    ultimately show ?thesis unfolding h run_Cons by simp
  qed
qed


section \<open>Handle allocation\<close>

lemma unat_word_of_nat_64: "n < 2 ^ 64 \<Longrightarrow> unat (word_of_nat n :: u64) = n"
  by (simp add: unat_of_nat)

lemma word_of_nat_less_64: "a < b \<Longrightarrow> b < 2 ^ 64 \<Longrightarrow> (word_of_nat a :: u64) < word_of_nat b"
proof -
  assume "a < b" "b < 2 ^ 64"
  then have "unat (word_of_nat a :: u64) = a" "unat (word_of_nat b :: u64) = b"
    by (simp_all add: unat_word_of_nat_64)
  with \<open>a < b\<close> show ?thesis by (simp only: word_less_nat_alt)
qed

lemma handles_New:
  "handles cs (New u x) = map (\<lambda>i. word_of_nat (Suc i)) [0..<length (handles cs (New u x))]"
  "nextFd (snd (run cs (New u x))) = word_of_nat (length (handles cs (New u x)))"
  "fileDescriptors (snd (run cs (New u x))) h \<noteq> None \<Longrightarrow> h \<in> set (handles cs (New u x))"
proof -
  have n: "nextFd (New u x) = 0" and f: "fileDescriptors (New u x) h = None"
    by (simp_all add: New_def)
  from run_handles [of cs "New u x"]
  show "handles cs (New u x) = map (\<lambda>i. word_of_nat (Suc i)) [0..<length (handles cs (New u x))]"
    unfolding n by simp
  from run_handles [of cs "New u x"]
  show "nextFd (snd (run cs (New u x))) = word_of_nat (length (handles cs (New u x)))"
    unfolding n by simp
  assume "fileDescriptors (snd (run cs (New u x))) h \<noteq> None"
  with run_handles [of cs "New u x"] f show "h \<in> set (handles cs (New u x))"
    by blast
qed

lemma counting_distinct:
  "k < 2 ^ 64 \<Longrightarrow> distinct (map (\<lambda>i. word_of_nat (Suc i) :: u64) [0..<k])"
proof -
  assume k: "k < 2 ^ 64"
  have "inj_on (\<lambda>i. word_of_nat (Suc i) :: u64) (set [0..<k])"
  proof (rule inj_onI)
    fix i j
    assume "i \<in> set [0..<k]" "j \<in> set [0..<k]"
      and eq: "(word_of_nat (Suc i) :: u64) = word_of_nat (Suc j)"
    with k have "Suc i < 2 ^ 64" "Suc j < 2 ^ 64" by auto
    with eq show "i = j"
      by (metis unat_word_of_nat_64 nat.inject)
  qed
  then show ?thesis by (simp add: distinct_map)
qed

lemma counting_sorted:
  "k < 2 ^ 64 \<Longrightarrow> sorted_wrt (<) (map (\<lambda>i. word_of_nat (Suc i) :: u64) [0..<k])"
proof -
  assume k: "k < 2 ^ 64"
  have "sorted_wrt (\<lambda>i j. (word_of_nat (Suc i) :: u64) < word_of_nat (Suc j)) [0..<k]"
  proof (rule sorted_wrt_mono_rel [where P = "(<)"])
    fix i j
    assume "i \<in> set [0..<k]" "j \<in> set [0..<k]" "i < j"
    with k have "Suc i < 2 ^ 64" "Suc j < 2 ^ 64" "Suc i < Suc j" by auto
    then show "(word_of_nat (Suc i) :: u64) < word_of_nat (Suc j)"
      by (intro word_of_nat_less_64)
  next
    show "sorted_wrt (<) [0..<k]" by (rule sorted_wrt_upt)
  qed
  then show ?thesis by (simp add: sorted_wrt_map)
qed

lemma counting_fresh:
  "k < 2 ^ 64 \<Longrightarrow> (word_of_nat (Suc k) :: u64) \<notin> set (map (\<lambda>i. word_of_nat (Suc i)) [0..<k])"
proof
  assume k: "k < 2 ^ 64"
    and "(word_of_nat (Suc k) :: u64) \<in> set (map (\<lambda>i. word_of_nat (Suc i)) [0..<k])"
  then obtain i where i: "i < k" and eq: "(word_of_nat (Suc k) :: u64) = word_of_nat (Suc i)"
    by auto
  from i k have "unat (word_of_nat (Suc i) :: u64) = Suc i"
    by (intro unat_word_of_nat_64) simp
  with eq have "unat (word_of_nat (Suc k) :: u64) = Suc i"
    by (simp only:)
  then have "Suc k mod 2 ^ 64 = Suc i"
    by (simp only: unat_of_nat) simp
  with i k show False
    by (cases "Suc k = 2 ^ 64") auto
qed


text \<open>
  Claim C3. The counter is a \<open>uint64\<close>, and a mount is taken to allocate fewer than
  \<open>2 ^ 64\<close> handles in its lifetime (the 64-bit space is not exhausted). In every such run
  from a new wrapper (the handles are allocated by Create, Open or Opendir; the calls of
  the run are arbitrary, and so is the filesystem underneath), the handles returned are
  \<open>1, 2, 3, ...\<close> in the order of the calls: pairwise distinct and increasing; the
  counter is the number of handles allocated so far; the handle the next call would
  allocate is not in the table and has not been returned before; and the counter is
  incremented only while \<open>fdMtx\<close> is held.
\<close>

theorem handles_distinct_before_wrap:
  assumes "length (handles cs (New u x)) < 2 ^ 64"
  shows "distinct (handles cs (New u x)) \<and>
    sorted_wrt (<) (handles cs (New u x)) \<and>
    handles cs (New u x) = map word_of_nat [1..<Suc (length (handles cs (New u x)))] \<and>
    nextFd (snd (run cs (New u x))) = word_of_nat (length (handles cs (New u x))) \<and>
    (\<forall>c h. allocated c (fst (step c (snd (run cs (New u x))))) = Some h \<longrightarrow>
       fileDescriptors (snd (run cs (New u x))) h = None \<and> h \<notin> set (handles cs (New u x))) \<and>
    locked_steps is_counter_step False (trace (snd (run cs (New u x))))"
proof -
  let ?hs = "handles cs (New u x)" and ?w = "snd (run cs (New u x))"
  let ?k = "length ?hs"
  note hs = handles_New(1) [of cs u x]
  have d: "distinct ?hs"
    by (subst hs) (rule counting_distinct [OF assms])
  have s: "sorted_wrt (<) ?hs"
    by (subst hs) (rule counting_sorted [OF assms])
  have "map (\<lambda>i. word_of_nat (Suc i) :: u64) [0..<?k] = map word_of_nat (map Suc [0..<?k])"
    by (simp add: comp_def del: of_nat_Suc)
  also have "\<dots> = map word_of_nat [1..<Suc ?k]"
    by (simp only: map_Suc_upt One_nat_def)
  finally have m: "?hs = map word_of_nat [1..<Suc ?k]"
    by (simp only: hs [symmetric])
  have n: "nextFd ?w = word_of_nat ?k"
    by (rule handles_New(2))
  have fresh: "(word_of_nat (Suc ?k) :: u64) \<notin> set ?hs"
    by (rule counting_fresh [OF assms, unfolded hs [symmetric]])
  have r: "fileDescriptors ?w h = None \<and> h \<notin> set ?hs"
    if "allocated c (fst (step c ?w)) = Some h" for c h
  proof -
    from that step_counter [of c ?w] have "h = nextFd ?w + 1" by simp
    with n have h: "h = word_of_nat (Suc ?k)" by simp
    with fresh have "h \<notin> set ?hs" by simp
    moreover from this handles_New(3) [of cs u x h] have "fileDescriptors ?w h = None" by blast
    ultimately show ?thesis by simp
  qed
  from run_trace [OF New_inv, of cs u x] have "sections_ok (trace ?w)"
    by (auto simp: New_def)
  then have l: "locked_steps is_counter_step False (trace ?w)"
    by (simp add: sections_ok_def)
  from d s m n r l show ?thesis by blast
qed

text \<open>
  The theorem on a run of six calls: Create, Opendir, an Open that fails, an Open that
  succeeds, Release of the first handle, and Create again. Four handles are allocated,
  1 to 4; releasing handle 1 does not make it come back.
\<close>

theorem handles_distinct_before_wrap_witness:
  "length (handles [Handle (OpCreate ''/b'' 0 0x1A4), Handle (OpOpendir ''/''),
       Handle (OpOpen ''/missing'' 0), Handle (OpOpen ''/a'' 0), Handle (OpRelease ''/b'' 1),
       Handle (OpCreate ''/c'' 0 0x1A4)] (New (mem_Basic None) mem0)) < 2 ^ 64 \<and>
   handles [Handle (OpCreate ''/b'' 0 0x1A4), Handle (OpOpendir ''/''),
       Handle (OpOpen ''/missing'' 0), Handle (OpOpen ''/a'' 0), Handle (OpRelease ''/b'' 1),
       Handle (OpCreate ''/c'' 0 0x1A4)] (New (mem_Basic None) mem0) = [1, 2, 3, 4] \<and>
   distinct (handles [Handle (OpCreate ''/b'' 0 0x1A4), Handle (OpOpendir ''/''),
       Handle (OpOpen ''/missing'' 0), Handle (OpOpen ''/a'' 0), Handle (OpRelease ''/b'' 1),
       Handle (OpCreate ''/c'' 0 0x1A4)] (New (mem_Basic None) mem0)) \<and>
   nextFd (snd (run [Handle (OpCreate ''/b'' 0 0x1A4), Handle (OpOpendir ''/''),
       Handle (OpOpen ''/missing'' 0), Handle (OpOpen ''/a'' 0), Handle (OpRelease ''/b'' 1),
       Handle (OpCreate ''/c'' 0 0x1A4)] (New (mem_Basic None) mem0))) = 4"
proof -
  let ?cs = "[Handle (OpCreate ''/b'' 0 0x1A4), Handle (OpOpendir ''/''),
       Handle (OpOpen ''/missing'' 0), Handle (OpOpen ''/a'' 0), Handle (OpRelease ''/b'' 1),
       Handle (OpCreate ''/c'' 0 0x1A4)] :: memfs op list"
  have len: "length (handles ?cs (New (mem_Basic None) mem0)) = 4"
    by (simp add: handles_def New_def handle_op_defs table_defs prim_defs returning_def
        allocated_def convertError_def Let_def mem_defs flag_defs errno_defs go_error_defs
        List.map_filter_simps)
  then have "length (handles ?cs (New (mem_Basic None) mem0)) < 2 ^ 64" by simp
  from this handles_distinct_before_wrap [OF this] len show ?thesis
    by (simp add: upt_rec)
qed

section \<open>The two maps of the handle table\<close>

lemma table_inv_dom: "table_inv w \<Longrightarrow> dom (fileDescriptors w) = dom (writeLocks w)"
  by (auto simp: table_inv_def dom_def)

lemma Release_deletes:
  "table_inv w \<Longrightarrow>
   fileDescriptors (snd (Release path fd w)) fd = None \<and>
   writeLocks (snd (Release path fd w)) fd = None"
  by (auto simp: table_inv_def Release_def prim_defs Let_def split: option.splits prod.splits)

lemma createFileDescriptor_fresh:
  "table_inv w \<Longrightarrow>
   \<exists>fd p. fst (createFileDescriptor fh w) = Returns fd \<and>
     fileDescriptors (snd (createFileDescriptor fh w)) fd = Some fh \<and>
     writeLocks (snd (createFileDescriptor fh w)) fd = Some p \<and>
     (\<forall>fd'. writeLocks w fd' \<noteq> Some p) \<and>
     \<not> mutexes (snd (createFileDescriptor fh w)) p"
  by (auto simp: table_inv_def createFileDescriptor_def prim_defs Let_def)

text \<open>
  Claim C4. After any run of calls on a new wrapper, whatever the filesystem underneath
  does (so also when \<open>Close\<close> fails in Release), the two maps have the same key set and
  \<open>fdMtx\<close> is free. Along the run the maps were changed only while \<open>fdMtx\<close> was held, and
  every put or delete on \<open>fileDescriptors\<close> was followed by the same step on \<open>writeLocks\<close>
  for the same handle before \<open>fdMtx\<close> was released. No mutex in the table is held between
  calls and no two handles share one. From such a state createFileDescriptor stores the
  file and a mutex that no handle had before, not held, under the handle it returns; and
  Release of a handle leaves neither map with that key.
\<close>

theorem maps_have_same_keys:
  "(let w = snd (run cs (New u x)) in
      dom (fileDescriptors w) = dom (writeLocks w) \<and>
      \<not> fdMtx w \<and>
      locked_steps is_map_step False (trace w) \<and>
      paired [] [] (trace w) \<and>
      (\<forall>fd p. writeLocks w fd = Some p \<longrightarrow>
         \<not> mutexes w p \<and> (\<forall>fd'. writeLocks w fd' = Some p \<longrightarrow> fd' = fd)) \<and>
      (\<forall>fh. \<exists>fd p. fst (createFileDescriptor fh w) = Returns fd \<and>
         fileDescriptors (snd (createFileDescriptor fh w)) fd = Some fh \<and>
         writeLocks (snd (createFileDescriptor fh w)) fd = Some p \<and>
         (\<forall>fd'. writeLocks w fd' \<noteq> Some p) \<and>
         \<not> mutexes (snd (createFileDescriptor fh w)) p) \<and>
      (\<forall>path fd. fileDescriptors (snd (Release path fd w)) fd = None \<and>
         writeLocks (snd (Release path fd w)) fd = None))"
proof -
  let ?w = "snd (run cs (New u x))"
  have inv: "table_inv ?w"
    by (rule run_inv [OF New_inv])
  from run_trace [OF New_inv, of cs u x] have "sections_ok (trace ?w)"
    by (auto simp: New_def)
  then have t: "locked_steps is_map_step False (trace ?w)" "paired [] [] (trace ?w)"
    by (simp_all add: sections_ok_def)
  from inv have l: "\<forall>fd p. writeLocks ?w fd = Some p \<longrightarrow>
      \<not> mutexes ?w p \<and> (\<forall>fd'. writeLocks ?w fd' = Some p \<longrightarrow> fd' = fd)"
    unfolding table_inv_def by blast
  from inv have f: "\<not> fdMtx ?w" by (simp add: table_inv_def)
  from table_inv_dom [OF inv] f t l createFileDescriptor_fresh [OF inv] Release_deletes [OF inv]
  show ?thesis unfolding Let_def by blast
qed

text \<open>
  The theorem on a filesystem whose \<open>Close\<close> fails: two files are opened, the first is
  released (Release returns \<open>-EIO\<close>), and handle 1 is gone from both maps while handle 2
  is in both.
\<close>

theorem maps_have_same_keys_witness:
  "fst (run [Handle (OpCreate ''/b'' 0 0x1A4), Handle (OpOpen ''/a'' 0), Handle (OpRelease ''/b'' 1)]
      (New (mem_Basic (Some other_error)) mem0)) =
     [Returns (Ret_handle 0 1), Returns (Ret_handle 0 2), Returns (Ret_int (- 5))] \<and>
   dom (fileDescriptors (snd (run [Handle (OpCreate ''/b'' 0 0x1A4), Handle (OpOpen ''/a'' 0),
      Handle (OpRelease ''/b'' 1)] (New (mem_Basic (Some other_error)) mem0)))) =
   dom (writeLocks (snd (run [Handle (OpCreate ''/b'' 0 0x1A4), Handle (OpOpen ''/a'' 0),
      Handle (OpRelease ''/b'' 1)] (New (mem_Basic (Some other_error)) mem0)))) \<and>
   writeLocks (snd (run [Handle (OpCreate ''/b'' 0 0x1A4), Handle (OpOpen ''/a'' 0),
      Handle (OpRelease ''/b'' 1)] (New (mem_Basic (Some other_error)) mem0))) 1 = None \<and>
   writeLocks (snd (run [Handle (OpCreate ''/b'' 0 0x1A4), Handle (OpOpen ''/a'' 0),
      Handle (OpRelease ''/b'' 1)] (New (mem_Basic (Some other_error)) mem0))) 2 = Some 1"
proof -
  let ?cs = "[Handle (OpCreate ''/b'' 0 0x1A4), Handle (OpOpen ''/a'' 0), Handle (OpRelease ''/b'' 1)]
      :: memfs op list"
  let ?w0 = "New (mem_Basic (Some other_error)) mem0"
  have r: "fst (run ?cs ?w0) =
      [Returns (Ret_handle 0 1), Returns (Ret_handle 0 2), Returns (Ret_int (- 5))]"
    by (simp add: New_def handle_op_defs table_defs prim_defs returning_def convertError_def
        Let_def mem_defs flag_defs errno_defs go_error_defs)
  have l: "writeLocks (snd (run ?cs ?w0)) 1 = None" "writeLocks (snd (run ?cs ?w0)) 2 = Some 1"
    by (simp_all add: New_def handle_op_defs table_defs prim_defs returning_def convertError_def
        Let_def mem_defs flag_defs errno_defs go_error_defs)
  from maps_have_same_keys [of ?cs "mem_Basic (Some other_error)" mem0]
  have "dom (fileDescriptors (snd (run ?cs ?w0))) = dom (writeLocks (snd (run ?cs ?w0)))"
    unfolding Let_def by (rule conjunct1)
  with r l show ?thesis by (simp only: simp_thms)
qed


section \<open>Release\<close>

text \<open>
  Claim C9. When handle \<open>fd\<close> is in the table (and \<open>fdMtx\<close> is free, as it is between
  calls), Release deletes the entry and its write lock, then calls \<open>Close\<close> on the file
  that was stored, then releases \<open>fdMtx\<close>: the trace shows the order. It returns the
  translation of what \<open>Close\<close> returned, whatever that is, and both maps have lost the key
  (and nothing else). A lookup of \<open>fd\<close> afterwards finds nothing, and a second Release
  returns \<open>-EINVAL\<close>.
\<close>

theorem Release_deletes_then_closes:
  assumes "fileDescriptors w fd = Some fh" and "\<not> fdMtx w"
  shows "fst (Release path fd w) = Returns (convertError (fst (File_Close fh (world w)))) \<and>
    fileDescriptors (snd (Release path fd w)) = (fileDescriptors w)(fd := None) \<and>
    writeLocks (snd (Release path fd w)) = (writeLocks w)(fd := None) \<and>
    world (snd (Release path fd w)) = snd (File_Close fh (world w)) \<and>
    trace (snd (Release path fd w)) =
      trace w @ [Lock_fdMtx, Delete_fileDescriptor fd, Delete_writeLock fd, Call (C_Close fh),
                 Unlock_fdMtx] \<and>
    \<not> fdMtx (snd (Release path fd w)) \<and>
    fst (getFileDescriptor fd (snd (Release path fd w))) = Returns None \<and>
    fst (Release path fd (snd (Release path fd w))) = Returns (- EINVAL)"
  using assms
  by (simp add: Release_def getFileDescriptor_def prim_defs Let_def split: prod.splits)

text \<open>
  The theorem on a filesystem whose \<open>Close\<close> fails with an error of no class: Release
  returns \<open>-EIO\<close> and the handle is gone.
\<close>

theorem Release_deletes_then_closes_witness:
  "fileDescriptors (snd (Create ''/b'' 0 0x1A4 (New (mem_Basic (Some other_error)) mem0))) 1 =
     Some (mem_File (Some other_error) ''/b'') \<and>
   \<not> fdMtx (snd (Create ''/b'' 0 0x1A4 (New (mem_Basic (Some other_error)) mem0))) \<and>
   fst (Release ''/b'' 1 (snd (Create ''/b'' 0 0x1A4 (New (mem_Basic (Some other_error)) mem0)))) =
     Returns (- 5) \<and>
   fileDescriptors (snd (Release ''/b'' 1
     (snd (Create ''/b'' 0 0x1A4 (New (mem_Basic (Some other_error)) mem0))))) 1 = None \<and>
   fst (getFileDescriptor 1 (snd (Release ''/b'' 1
     (snd (Create ''/b'' 0 0x1A4 (New (mem_Basic (Some other_error)) mem0)))))) = Returns None"
proof -
  let ?w = "snd (Create ''/b'' 0 0x1A4 (New (mem_Basic (Some other_error)) mem0))"
  have a: "fileDescriptors ?w 1 = Some (mem_File (Some other_error) ''/b'')"
    by (simp add: New_def Create_def table_defs prim_defs Let_def mem_Basic_def mem0_def flag_defs)
  have b: "\<not> fdMtx ?w"
    by (simp add: New_def Create_def table_defs prim_defs Let_def mem_Basic_def mem0_def flag_defs)
  have c: "convertError (fst (File_Close (mem_File (Some other_error) ''/b'') (world ?w))) = - 5"
    by (simp add: mem_File_def convertError_def other_error_def errno_defs)
  from Release_deletes_then_closes [OF a b, of "''/b''"] a b c show ?thesis
    by simp
qed

section \<open>Write on a handle that is not in the table\<close>

lemma Write_panics:
  assumes "table_inv w" and "fileDescriptors w fd = None"
  shows "fst (Write path buff ofst fd w) = Panics"
  using assms
  by (simp add: table_inv_def Write_def getFileDescriptorWithLock_def prim_defs Let_def)

text \<open>
  Claim C1 asks for \<open>-EINVAL\<close>; the code panics. In every state a run of calls can reach
  from a new wrapper, Write with a handle that is not in \<open>fileDescriptors\<close> does not
  return: the handle is not in \<open>writeLocks\<close> either, getFileDescriptorWithLock calls
  \<open>Lock\<close> on the nil pointer it reads there, and the test of \<open>ok\<close> in Write is never
  reached.
\<close>

theorem Write_without_handle_panics:
  assumes "fileDescriptors (snd (run cs (New u x))) fd = None"
  shows "fst (Write path buff ofst fd (snd (run cs (New u x)))) = Panics \<and>
    fst (Write path buff ofst fd (snd (run cs (New u x)))) \<noteq> Returns (- EINVAL)"
  using Write_panics [OF run_inv [OF New_inv] assms] by simp

text \<open>
  The scenario of the spec: Create returns handle 1, Release of handle 1 returns 0, and
  Write with handle 1 panics.
\<close>

theorem Write_without_handle_panics_witness:
  "fileDescriptors (snd (run [Handle (OpCreate ''/b'' 0 0x1A4), Handle (OpRelease ''/b'' 1)]
      (New (mem_Basic None) mem0))) 1 = None \<and>
   fst (run [Handle (OpCreate ''/b'' 0 0x1A4), Handle (OpRelease ''/b'' 1)]
      (New (mem_Basic None) mem0)) = [Returns (Ret_handle 0 1), Returns (Ret_int 0)] \<and>
   fst (Write ''/b'' [1, 2, 3, 4, 5] 0 1
      (snd (run [Handle (OpCreate ''/b'' 0 0x1A4), Handle (OpRelease ''/b'' 1)]
        (New (mem_Basic None) mem0)))) = Panics"
proof -
  let ?cs = "[Handle (OpCreate ''/b'' 0 0x1A4), Handle (OpRelease ''/b'' 1)] :: memfs op list"
  let ?w0 = "New (mem_Basic None) mem0"
  have a: "fileDescriptors (snd (run ?cs ?w0)) 1 = None"
    by (simp add: New_def handle_op_defs table_defs prim_defs returning_def convertError_def
        Let_def mem_defs flag_defs)
  have b: "fst (run ?cs ?w0) = [Returns (Ret_handle 0 1), Returns (Ret_int 0)]"
    by (simp add: New_def handle_op_defs table_defs prim_defs returning_def convertError_def
        Let_def mem_defs flag_defs)
  from Write_without_handle_panics [OF a] a b show ?thesis
    by (simp only: simp_thms)
qed


section \<open>Truncate\<close>

text \<open>
  Claim C7. With the handle \<open>^uint64(0)\<close> Truncate does not look at the table (so no
  Open need have come before): it opens the path with \<open>O_WRONLY\<close> and mode 0777; when that
  fails it returns the translated error and calls nothing else; otherwise it calls
  \<open>Truncate\<close> and then \<open>Close\<close> on the file it opened, whether \<open>Truncate\<close> failed or not,
  and returns the translation of what \<open>Truncate\<close> returned (what \<open>Close\<close> returns is not
  part of the result). With any other handle it looks the handle up: when the handle is in
  the table it calls \<open>Truncate\<close> on the stored file and returns the translation of the
  result; when it is not, it returns \<open>-EINVAL\<close> and calls nothing. In every case the
  counter and the two maps are as before.
\<close>

theorem Truncate_by_path_or_handle:
  "(\<forall>e x. fd = NOT 0 \<and> Basic_OpenFile (underlying w) path O_WRONLY 0x1FF (world w) = (Inl e, x) \<longrightarrow>
      fst (Truncate path sz fd w) = Returns (convertError (Some e)) \<and>
      trace (snd (Truncate path sz fd w)) = trace w @ [Call (C_OpenFile path O_WRONLY 0x1FF)] \<and>
      world (snd (Truncate path sz fd w)) = x) \<and>
   (\<forall>fh x. fd = NOT 0 \<and> Basic_OpenFile (underlying w) path O_WRONLY 0x1FF (world w) = (Inr fh, x) \<longrightarrow>
      fst (Truncate path sz fd w) = Returns (convertError (fst (File_Truncate fh sz x))) \<and>
      trace (snd (Truncate path sz fd w)) =
        trace w @ [Call (C_OpenFile path O_WRONLY 0x1FF), Call (C_Truncate fh sz), Call (C_Close fh)] \<and>
      world (snd (Truncate path sz fd w)) = snd (File_Close fh (snd (File_Truncate fh sz x)))) \<and>
   (\<forall>fh. fd \<noteq> NOT 0 \<and> \<not> fdMtx w \<and> fileDescriptors w fd = Some fh \<longrightarrow>
      fst (Truncate path sz fd w) = Returns (convertError (fst (File_Truncate fh sz (world w)))) \<and>
      trace (snd (Truncate path sz fd w)) =
        trace w @ [Lock_fdMtx, Unlock_fdMtx, Call (C_Truncate fh sz)] \<and>
      world (snd (Truncate path sz fd w)) = snd (File_Truncate fh sz (world w))) \<and>
   (fd \<noteq> NOT 0 \<and> \<not> fdMtx w \<and> fileDescriptors w fd = None \<longrightarrow>
      fst (Truncate path sz fd w) = Returns (- EINVAL) \<and>
      trace (snd (Truncate path sz fd w)) = trace w @ [Lock_fdMtx, Unlock_fdMtx] \<and>
      world (snd (Truncate path sz fd w)) = world w) \<and>
   (\<not> fdMtx w \<longrightarrow> same_table w (snd (Truncate path sz fd w)))"
  by (auto simp: Truncate_def getFileDescriptor_def prim_defs same_table_def Let_def
      split: prod.splits sum.splits option.splits)

text \<open>
  The theorem on the filesystem of the examples: by path on a new wrapper, with no handle
  ever allocated, \<open>/a\<close> is cut to one byte; a path that is not there gives \<open>-ENOENT\<close>; by
  a handle from Open the file is cut to two bytes; by a handle that is not in the table
  the answer is \<open>-EINVAL\<close>.
\<close>

theorem Truncate_by_path_or_handle_witness:
  "fst (Truncate ''/a'' 1 (NOT 0) (New (mem_Basic None) mem0)) = Returns 0 \<and>
   trace (snd (Truncate ''/a'' 1 (NOT 0) (New (mem_Basic None) mem0))) =
     [Call (C_OpenFile ''/a'' O_WRONLY 0x1FF), Call (C_Truncate (mem_File None ''/a'') 1),
      Call (C_Close (mem_File None ''/a''))] \<and>
   map_of (mem_files (world (snd (Truncate ''/a'' 1 (NOT 0) (New (mem_Basic None) mem0))))) ''/a'' =
     Some [1] \<and>
   fst (Truncate ''/missing'' 1 (NOT 0) (New (mem_Basic None) mem0)) = Returns (- 2) \<and>
   fst (Truncate ''/a'' 2 1 (snd (Open ''/a'' 0 (New (mem_Basic None) mem0)))) = Returns 0 \<and>
   fst (Truncate ''/a'' 2 7 (snd (Open ''/a'' 0 (New (mem_Basic None) mem0)))) = Returns (- 22)"
proof -
  let ?w0 = "New (mem_Basic None) mem0"
  let ?w1 = "snd (Open ''/a'' 0 ?w0)"
  let ?f = "mem_File None ''/a''"
  have o1: "Basic_OpenFile (underlying ?w0) ''/a'' O_WRONLY 0x1FF (world ?w0) = (Inr ?f, mem0)"
    by (simp add: New_def mem_Basic_def mem0_def)
  have o2: "Basic_OpenFile (underlying ?w0) ''/missing'' O_WRONLY 0x1FF (world ?w0) =
      (Inl ErrNotExist, mem0)"
    by (simp add: New_def mem_Basic_def mem0_def flag_defs)
  have h1: "(1::u64) \<noteq> NOT 0" "\<not> fdMtx ?w1" "fileDescriptors ?w1 1 = Some ?f"
    by (simp_all add: New_def Open_def table_defs prim_defs Let_def mem_Basic_def mem0_def flag_defs)
  have h7: "(7::u64) \<noteq> NOT 0" "fileDescriptors ?w1 7 = None"
    by (simp_all add: New_def Open_def table_defs prim_defs Let_def mem_Basic_def mem0_def flag_defs)
  have w1: "world ?w1 = mem0"
    by (simp add: New_def Open_def table_defs prim_defs Let_def mem_Basic_def mem0_def flag_defs)
  have t0: "trace ?w0 = []"
    by (simp add: New_def)
  have t1: "File_Truncate ?f 1 mem0 = (None, mem0\<lparr>mem_files := (''/a'', [1]) # mem_files mem0\<rparr>)"
    by (simp add: mem_File_def mem0_def)
  have t2: "fst (File_Truncate ?f 2 mem0) = None"
    by (simp add: mem_File_def mem0_def)
  have c: "File_Close ?f m = (None, m)" for m
    by (simp add: mem_File_def)
  have e: "convertError None = 0" "convertError (Some ErrNotExist) = - 2" "- EINVAL = - 22"
    by (simp_all add: convertError_def go_error_defs errno_defs)
  from Truncate_by_path_or_handle [of "NOT 0" ?w0 "''/a''" 1] o1
  have "fst (Truncate ''/a'' 1 (NOT 0) ?w0) = Returns (convertError (fst (File_Truncate ?f 1 mem0)))"
    and "trace (snd (Truncate ''/a'' 1 (NOT 0) ?w0)) =
      trace ?w0 @ [Call (C_OpenFile ''/a'' O_WRONLY 0x1FF), Call (C_Truncate ?f 1), Call (C_Close ?f)]"
    and "world (snd (Truncate ''/a'' 1 (NOT 0) ?w0)) = snd (File_Close ?f (snd (File_Truncate ?f 1 mem0)))"
    by simp_all
  then have a: "fst (Truncate ''/a'' 1 (NOT 0) ?w0) = Returns 0"
    and b: "trace (snd (Truncate ''/a'' 1 (NOT 0) ?w0)) =
      [Call (C_OpenFile ''/a'' O_WRONLY 0x1FF), Call (C_Truncate ?f 1), Call (C_Close ?f)]"
    and d: "map_of (mem_files (world (snd (Truncate ''/a'' 1 (NOT 0) ?w0)))) ''/a'' = Some [1]"
    by (simp_all add: t0 t1 c e)
  from Truncate_by_path_or_handle [of "NOT 0" ?w0 "''/missing''" 1] o2
  have m: "fst (Truncate ''/missing'' 1 (NOT 0) ?w0) = Returns (- 2)"
    by (simp add: e)
  from Truncate_by_path_or_handle [of 1 ?w1 "''/a''" 2] h1
  have h: "fst (Truncate ''/a'' 2 1 ?w1) = Returns 0"
    by (simp add: w1 t2 e)
  from Truncate_by_path_or_handle [of 7 ?w1 "''/a''" 2] h7 h1(2)
  have n: "fst (Truncate ''/a'' 2 7 ?w1) = Returns (- 22)"
    by (simp add: e)
  from a b d m h n show ?thesis
    by (simp only: simp_thms)
qed

section \<open>Read\<close>

text \<open>
  Claim C8. With \<open>fdMtx\<close> free, as it is between calls: Read with a handle that is not in
  the table returns \<open>-EINVAL\<close> and leaves the buffer alone. With a handle that is in the
  table it calls \<open>ReadAt\<close> on the stored file once; when \<open>ReadAt\<close> returns a positive
  count or the error \<open>io.EOF\<close>, Read returns the count, so end of stream with no bytes
  read gives 0; otherwise Read returns the translation of the error (0 when there is
  none).
\<close>

theorem Read_returns_count_or_error:
  assumes "\<not> fdMtx w"
  shows "(fileDescriptors w fd = None \<longrightarrow>
      fst (Read path buff ofst fd w) = Returns (- EINVAL, buff) \<and>
      world (snd (Read path buff ofst fd w)) = world w) \<and>
    (\<forall>fh n err b x.
       fileDescriptors w fd = Some fh \<and> File_ReadAt fh buff ofst (world w) = (((n, err), b), x) \<longrightarrow>
         (0 < n \<or> is_io_EOF err \<longrightarrow> fst (Read path buff ofst fd w) = Returns (n, b)) \<and>
         (n = 0 \<and> is_io_EOF err \<longrightarrow> fst (Read path buff ofst fd w) = Returns (0, b)) \<and>
         (\<not> 0 < n \<and> \<not> is_io_EOF err \<longrightarrow>
            fst (Read path buff ofst fd w) = Returns (convertError err, b)) \<and>
         world (snd (Read path buff ofst fd w)) = x \<and>
         trace (snd (Read path buff ofst fd w)) =
           trace w @ [Lock_fdMtx, Unlock_fdMtx, Call (C_ReadAt fh buff ofst)]) \<and>
    same_table w (snd (Read path buff ofst fd w))"
  using assms
  by (auto simp: Read_def getFileDescriptor_def prim_defs same_table_def Let_def
      split: prod.splits option.splits)

text \<open>
  The theorem on the three bytes of \<open>/a\<close>: reading four bytes at offset 0 returns 3 (the
  read ends at end of stream with bytes read); reading at offset 3 returns 0 (end of
  stream, nothing read); reading with a handle that is not in the table returns
  \<open>-EINVAL\<close>.
\<close>

theorem Read_returns_count_or_error_witness:
  "\<not> fdMtx (snd (Open ''/a'' 0 (New (mem_Basic None) mem0))) \<and>
   fst (Read ''/a'' [0, 0, 0, 0] 0 1 (snd (Open ''/a'' 0 (New (mem_Basic None) mem0)))) =
     Returns (3, [1, 2, 3, 0]) \<and>
   fst (Read ''/a'' [0, 0, 0, 0] 3 1 (snd (Open ''/a'' 0 (New (mem_Basic None) mem0)))) =
     Returns (0, [0, 0, 0, 0]) \<and>
   fst (Read ''/a'' [0, 0, 0, 0] 0 2 (snd (Open ''/a'' 0 (New (mem_Basic None) mem0)))) =
     Returns (- 22, [0, 0, 0, 0])"
proof -
  let ?w1 = "snd (Open ''/a'' 0 (New (mem_Basic None) mem0))"
  have f: "\<not> fdMtx ?w1"
    by (simp add: New_def Open_def table_defs prim_defs Let_def mem_Basic_def mem0_def flag_defs)
  have h1: "fileDescriptors ?w1 1 = Some (mem_File None ''/a'')"
    by (simp add: New_def Open_def table_defs prim_defs Let_def mem_Basic_def mem0_def flag_defs)
  have h2: "fileDescriptors ?w1 2 = None"
    by (simp add: New_def Open_def table_defs prim_defs Let_def mem_Basic_def mem0_def flag_defs)
  have w1: "world ?w1 = mem0"
    by (simp add: New_def Open_def table_defs prim_defs Let_def mem_Basic_def mem0_def flag_defs)
  have r0: "File_ReadAt (mem_File None ''/a'') [0, 0, 0, 0] 0 (world ?w1) =
      (((3, Some EOF), [1, 2, 3, 0]), mem0)"
    unfolding w1 by (simp add: mem_File_def mem0_def Let_def)
  have r3: "File_ReadAt (mem_File None ''/a'') [0, 0, 0, 0] 3 (world ?w1) =
      (((0, Some EOF), [0, 0, 0, 0]), mem0)"
    unfolding w1 by (simp add: mem_File_def mem0_def Let_def)
  have e: "is_io_EOF (Some EOF)"
    by (simp add: is_io_EOF_def go_error_defs)
  from Read_returns_count_or_error [OF f, of 1 "''/a''" "[0, 0, 0, 0]" 0] h1 r0 e
    Read_returns_count_or_error [OF f, of 1 "''/a''" "[0, 0, 0, 0]" 3] h1 r3 e
    Read_returns_count_or_error [OF f, of 2 "''/a''" "[0, 0, 0, 0]" 0] h2 f
  show ?thesis
    by (simp add: errno_defs)
qed


section \<open>Readdir\<close>

text \<open>
  Claim C2, as the code has it. On a filesystem that lists directories, Readdir calls
  \<open>ReadDir\<close> on the path once. When the listing fails, Readdir returns the translated
  error, which is never \<open>-ENOSYS\<close>, and \<open>fill\<close> is not called. When the listing
  succeeds, \<open>fill\<close> is called once per entry, in the order of the listing, with the
  entry's name, its converted attributes and offset 0, and Readdir returns \<open>-ENOSYS\<close>
  whatever \<open>fill\<close> answered. The handle table is not touched.
\<close>

theorem Readdir_lists_through_fill:
  assumes "as_Dir (underlying w) = Some dfs"
  shows "(\<forall>e x. Dir_ReadDir dfs path (world w) = (Inl e, x) \<longrightarrow>
      fst (Readdir path fill ofst fh w) = Returns (convertError (Some e)) \<and>
      fst (Readdir path fill ofst fh w) \<noteq> Returns (- ENOSYS) \<and>
      trace (snd (Readdir path fill ofst fh w)) = trace w @ [Call (C_ReadDir path)] \<and>
      world (snd (Readdir path fill ofst fh w)) = x) \<and>
    (\<forall>entries x. Dir_ReadDir dfs path (world w) = (Inr entries, x) \<longrightarrow>
      fst (Readdir path fill ofst fh w) = Returns (- ENOSYS) \<and>
      trace (snd (Readdir path fill ofst fh w)) =
        trace w @ Call (C_ReadDir path) #
          map (\<lambda>e. Call (C_fill (fi_Name e) (fileInfoToStat e) 0)) entries \<and>
      world (snd (Readdir path fill ofst fh w)) =
        foldl (\<lambda>x e. snd (fill (fi_Name e) (fileInfoToStat e) 0 x)) x entries) \<and>
    same_table w (snd (Readdir path fill ofst fh w))"
  using assms
  by (auto simp: Readdir_def prim_defs same_table_def fill_entries_fields trace_fill_entries
      world_fill_entries convertError_Some
      split: prod.splits sum.splits)

text \<open>
  The theorem on the filesystem of the examples: the root lists the file \<open>/a\<close>, which
  goes through \<open>fill\<close> with its name and its attributes, and the return code is
  \<open>-ENOSYS\<close>.
\<close>

theorem Readdir_lists_through_fill_witness:
  "as_Dir (underlying (New (mem_Basic None) mem0)) = Some mem_Dir \<and>
   fst (Readdir ''/'' fill_ok 0 0 (New (mem_Basic None) mem0)) = Returns (- 38) \<and>
   trace (snd (Readdir ''/'' fill_ok 0 0 (New (mem_Basic None) mem0))) =
     [Call (C_ReadDir ''/''),
      Call (C_fill ''a'' (fileInfoToStat (mem_file_info ''/a'' [1, 2, 3])) 0)]"
proof -
  let ?w0 = "New (mem_Basic None) mem0"
  have d: "as_Dir (underlying ?w0) = Some mem_Dir"
    by (simp add: New_def mem_Basic_def)
  have l: "Dir_ReadDir mem_Dir ''/'' (world ?w0) = (Inr [mem_file_info ''/a'' [1, 2, 3]], mem0)"
    by (simp add: New_def mem_Dir_def mem0_def dirname_def)
  have n: "fi_Name (mem_file_info ''/a'' [1, 2, 3]) = ''a''"
    by (simp add: mem_file_info_def basename_def)
  have t0: "trace ?w0 = []"
    by (simp add: New_def)
  from Readdir_lists_through_fill [OF d, of "''/''" fill_ok 0 0] l d show ?thesis
    by (simp add: n t0 errno_defs)
qed

text \<open>
  Claim C2, as the spec has it, fails when the listing fails: on a path that is not
  there, on a filesystem that lists directories, Readdir returns \<open>-ENOENT\<close>.
\<close>

theorem Readdir_failed_listing:
  "as_Dir (underlying (New (mem_Basic None) mem0)) = Some mem_Dir \<and>
   fst (Readdir ''/missing'' fill_ok 0 0 (New (mem_Basic None) mem0)) = Returns (- ENOENT) \<and>
   fst (Readdir ''/missing'' fill_ok 0 0 (New (mem_Basic None) mem0)) \<noteq> Returns (- ENOSYS)"
  by (simp add: Readdir_def New_def mem_Basic_def mem_Dir_def mem0_def prim_defs convertError_def
      go_error_defs errno_defs)

section \<open>Mkdir\<close>

lemma convertError_zero: "(convertError err = 0) = (err = None)"
  by (cases err) (simp_all add: convertError_def errno_defs)


lemma mem_Dir_contract: "MkdirAll_contract (\<lambda>m p. p \<in> set (mem_dirs m)) mem_Dir"
  by (auto simp: MkdirAll_contract_def mem_Dir_def)

text \<open>
  Claim C10. On a filesystem that makes directories, Mkdir is one call of \<open>MkdirAll\<close> with
  the path and the mode it was given: the world after Mkdir is the world after that call,
  and the return code is the translation of what the call returned, 0 exactly when it
  returned nil. So what go-billy promises of \<open>MkdirAll\<close> holds of Mkdir: when the path is
  a directory already, Mkdir returns 0 and no already-exists error; and when Mkdir
  returns 0, the path and every directory on the way to it are there.
\<close>

theorem Mkdir_is_MkdirAll:
  assumes "as_Dir (underlying w) = Some dfs"
  shows "fst (Mkdir path mode w) = Returns (convertError (fst (Dir_MkdirAll dfs path mode (world w)))) \<and>
    world (snd (Mkdir path mode w)) = snd (Dir_MkdirAll dfs path mode (world w)) \<and>
    trace (snd (Mkdir path mode w)) = trace w @ [Call (C_MkdirAll path mode)] \<and>
    same_table w (snd (Mkdir path mode w)) \<and>
    (fst (Mkdir path mode w) = Returns 0) = (fst (Dir_MkdirAll dfs path mode (world w)) = None) \<and>
    (MkdirAll_contract is_dir dfs \<longrightarrow>
       (is_dir (world w) path \<longrightarrow> fst (Mkdir path mode w) = Returns 0) \<and>
       (fst (Mkdir path mode w) = Returns 0 \<longrightarrow>
          (\<forall>p \<in> set (ancestors [] path). is_dir (world (snd (Mkdir path mode w))) p)))"
proof -
  let ?r = "Dir_MkdirAll dfs path mode (world w)"
  from assms have a: "fst (Mkdir path mode w) = Returns (convertError (fst ?r))"
    and b: "world (snd (Mkdir path mode w)) = snd ?r"
    and c: "trace (snd (Mkdir path mode w)) = trace w @ [Call (C_MkdirAll path mode)]"
    and d: "same_table w (snd (Mkdir path mode w))"
    by (auto simp: Mkdir_def prim_defs same_table_def split: prod.splits)
  from a have e: "(fst (Mkdir path mode w) = Returns 0) = (fst ?r = None)"
    by (simp add: convertError_zero)
  have f: "is_dir (world w) path \<longrightarrow> fst (Mkdir path mode w) = Returns 0"
    and g: "fst (Mkdir path mode w) = Returns 0 \<longrightarrow>
      (\<forall>p \<in> set (ancestors [] path). is_dir (world (snd (Mkdir path mode w))) p)"
    if "MkdirAll_contract is_dir dfs"
    using that unfolding e b MkdirAll_contract_def by blast+
  from a b c d e f g show ?thesis by blast
qed

text \<open>
  The theorem on the filesystem of the examples, whose \<open>MkdirAll\<close> keeps the promise:
  Mkdir of \<open>/x/y/z\<close> with only the root there returns 0 and leaves \<open>/x\<close>, \<open>/x/y\<close> and
  \<open>/x/y/z\<close>; Mkdir of the same path again returns 0 and changes nothing.
\<close>

theorem Mkdir_is_MkdirAll_witness:
  "as_Dir (underlying (New (mem_Basic None) mem0)) = Some mem_Dir \<and>
   MkdirAll_contract (\<lambda>m p. p \<in> set (mem_dirs m)) mem_Dir \<and>
   fst (Mkdir ''/x/y/z'' 0x1ED (New (mem_Basic None) mem0)) = Returns 0 \<and>
   mem_dirs (world (snd (Mkdir ''/x/y/z'' 0x1ED (New (mem_Basic None) mem0)))) =
     [''/'', ''/x'', ''/x/y'', ''/x/y/z''] \<and>
   ''/x/y'' \<in> set (mem_dirs (world (snd (Mkdir ''/x/y/z'' 0x1ED (New (mem_Basic None) mem0))))) \<and>
   fst (Mkdir ''/x/y/z'' 0x1ED (snd (Mkdir ''/x/y/z'' 0x1ED (New (mem_Basic None) mem0)))) =
     Returns 0 \<and>
   mem_dirs (world (snd (Mkdir ''/x/y/z'' 0x1ED
     (snd (Mkdir ''/x/y/z'' 0x1ED (New (mem_Basic None) mem0)))))) =
     [''/'', ''/x'', ''/x/y'', ''/x/y/z'']"
proof -
  let ?w0 = "New (mem_Basic None) mem0"
  let ?w1 = "snd (Mkdir ''/x/y/z'' 0x1ED ?w0)"
  let ?m1 = "mem0\<lparr>mem_dirs := [''/'', ''/x'', ''/x/y'', ''/x/y/z'']\<rparr>"
  let ?is_dir = "\<lambda>m p. p \<in> set (mem_dirs m)"
  have d0: "as_Dir (underlying ?w0) = Some mem_Dir"
    by (simp add: New_def mem_Basic_def)
  have w0: "world ?w0 = mem0"
    by (simp add: New_def)
  have m0: "Dir_MkdirAll mem_Dir ''/x/y/z'' 0x1ED mem0 = (None, ?m1)"
    by (simp add: mem_Dir_def mem0_def)
  have m1: "Dir_MkdirAll mem_Dir ''/x/y/z'' 0x1ED ?m1 = (None, ?m1)"
    by (simp add: mem_Dir_def mem0_def)
  have an: "''/x/y'' \<in> set (ancestors [] ''/x/y/z'')"
    by simp
  note T0 = Mkdir_is_MkdirAll [OF d0, of "''/x/y/z''" "0x1ED" ?is_dir]
  from T0 have a: "fst (Mkdir ''/x/y/z'' 0x1ED ?w0) = Returns 0" and b: "world ?w1 = ?m1"
    and s: "same_table ?w0 ?w1"
    by (simp_all add: w0 m0 convertError_def)
  from T0 mem_Dir_contract a an have p: "''/x/y'' \<in> set (mem_dirs (world ?w1))"
    by blast
  from s d0 have d1: "as_Dir (underlying ?w1) = Some mem_Dir"
    by (simp add: same_table_def)
  note T1 = Mkdir_is_MkdirAll [OF d1, of "''/x/y/z''" "0x1ED" ?is_dir]
  have "?is_dir (world ?w1) ''/x/y/z''"
    by (simp add: b)
  with T1 mem_Dir_contract have c: "fst (Mkdir ''/x/y/z'' 0x1ED ?w1) = Returns 0"
    by blast
  from T1 have e: "world (snd (Mkdir ''/x/y/z'' 0x1ED ?w1)) = ?m1"
    by (simp add: b m1)
  from d0 mem_Dir_contract a b p c e show ?thesis
    by simp
qed

end
